theory Spec2Isabelle
  imports Main
begin

section \<open>Strings\<close>

text \<open>
  A JavaScript string is a sequence of UTF-16 code units. It is modelled as the list of
  its code units, each a natural number (below 65536 in the program), so that
  \<^const>\<open>length\<close> is the \<^verbatim>\<open>.length\<close> of the source and \<^const>\<open>take\<close> its \<^verbatim>\<open>substring(0, n)\<close>.
  \<open>js\<close> writes a literal: the code units of an ASCII text.
\<close>

type_synonym jstring = "nat list"

definition js :: "string \<Rightarrow> jstring" where
  "js s = map of_char s"

text \<open>
  The white space of \<^verbatim>\<open>trim\<close> and of the regular expression class \<^verbatim>\<open>\s\<close> (the two agree):
  tab, line feed, vertical tab, form feed, carriage return, space, no-break space
  U+00A0, U+1680, U+2000 to U+200A, the line and paragraph separators U+2028 and U+2029,
  U+202F, U+205F, U+3000 and the byte order mark U+FEFF.
\<close>

definition is_ws :: "nat \<Rightarrow> bool" where
  "is_ws c =
     (c \<in> set [0x09, 0x0A, 0x0B, 0x0C, 0x0D, 0x20, 0xA0, 0x1680, 0x2028, 0x2029, 0x202F,
                0x205F, 0x3000, 0xFEFF] \<or>
      (0x2000 \<le> c \<and> c \<le> 0x200A))"

text \<open>\<^verbatim>\<open>s.trim()\<close>\<close>

definition trim :: "jstring \<Rightarrow> jstring" where
  "trim s = rev (dropWhile is_ws (rev (dropWhile is_ws s)))"

text \<open>\<^verbatim>\<open>s.startsWith(p)\<close>\<close>

definition startsWith :: "jstring \<Rightarrow> jstring \<Rightarrow> bool" where
  "startsWith s p = (take (length p) s = p)"

text \<open>
  \<^verbatim>\<open>s.split(d)\<close> for a separator of one code unit: the pieces between the separators,
  empty pieces kept, so that the empty string splits into one empty piece. The first
  argument is the piece being read.
\<close>

fun split_from :: "jstring \<Rightarrow> nat \<Rightarrow> jstring \<Rightarrow> jstring list" where
  "split_from cur d [] = [cur]"
| "split_from cur d (c # cs) =
     (if c = d then cur # split_from [] d cs else split_from (cur @ [c]) d cs)"

definition split_char :: "nat \<Rightarrow> jstring \<Rightarrow> jstring list" where
  "split_char d s = split_from [] d s"

text \<open>
  \<^verbatim>\<open>s.split(/\s+/)\<close>: every maximal run of white space is one separator. A string that
  starts (ends) with white space has an empty first (last) piece.
\<close>

function split_ws_from :: "jstring \<Rightarrow> jstring \<Rightarrow> jstring list" where
  "split_ws_from cur [] = [cur]"
| "split_ws_from cur (c # cs) =
     (if is_ws c then cur # split_ws_from [] (dropWhile is_ws cs)
      else split_ws_from (cur @ [c]) cs)"
  by pat_completeness auto
termination
  by (relation "measure (\<lambda>(cur, s). length s)")
    (auto simp: length_dropWhile_le less_Suc_eq_le)

definition split_ws :: "jstring \<Rightarrow> jstring list" where
  "split_ws s = split_ws_from [] s"

text \<open>\<^verbatim>\<open>xs.join(sep)\<close>\<close>

fun join :: "jstring \<Rightarrow> jstring list \<Rightarrow> jstring" where
  "join sep [] = []"
| "join sep [x] = x"
| "join sep (x # y # ys) = x @ sep @ join sep (y # ys)"

text \<open>
  \<^verbatim>\<open>s.toLowerCase()\<close>. The source only compares its result with words made of the letters
  a to z and the underscore (the stop words, the keys of the language table). The code
  units whose lower case is such a letter are A to Z and the Kelvin sign U+212A (lower
  case k), and the model maps exactly those; every other code unit has a lower case
  that is no ASCII letter, so each comparison of the source comes out as in the
  program, on every string.
\<close>

definition toLowerUnit :: "nat \<Rightarrow> nat" where
  "toLowerUnit c =
     (if 0x41 \<le> c \<and> c \<le> 0x5A then c + 0x20 else if c = 0x212A then 0x6B else c)"

definition toLowerCase :: "jstring \<Rightarrow> jstring" where
  "toLowerCase s = map toLowerUnit s"

section \<open>The title of a session (\<^verbatim>\<open>generateSessionTitle\<close>)\<close>

text \<open>The filter on the trimmed lines: empty lines and comment lines go.\<close>

definition keep_line :: "jstring \<Rightarrow> bool" where
  "keep_line line =
     (if line = [] then False
      else if startsWith line (js ''//'') then False
      else if startsWith line (js ''/*'') then False
      else if startsWith line (js ''*'') then False
      else if startsWith line (js ''#'') then False
      else if startsWith line (js ''<!--'') then False
      else True)"

definition cleanCode :: "jstring \<Rightarrow> jstring" where
  "cleanCode code = join (js '' '') (filter keep_line (map trim (split_char 0x0A code)))"

text \<open>
  The character class of the \<^verbatim>\<open>replace\<close>: braces, parentheses, semicolon, comma, square
  brackets, double quote (0x22), single quote (0x27) and backtick (0x60).
\<close>

definition code_symbols :: "nat list" where
  "code_symbols = js ''{}();,[]'' @ [0x22, 0x27, 0x60]"

definition replace_symbols :: "jstring \<Rightarrow> jstring" where
  "replace_symbols s = map (\<lambda>c. if c \<in> set code_symbols then 0x20 else c) s"

definition commonKeywords :: "jstring list" where
  "commonKeywords =
     map js
       [''import'', ''from'', ''const'', ''let'', ''var'', ''function'', ''class'', ''export'',
        ''default'', ''return'', ''if'', ''else'', ''for'', ''while'', ''do'', ''try'', ''catch'',
        ''async'', ''await'']"

definition meaningful :: "jstring \<Rightarrow> bool" where
  "meaningful word = (length word > 2 \<and> toLowerCase word \<notin> set commonKeywords)"

definition title_words :: "jstring \<Rightarrow> jstring list" where
  "title_words code = take 4 (filter meaningful (split_ws (replace_symbols (cleanCode code))))"

text \<open>
  \<^verbatim>\<open>language.charAt(0).toUpperCase() + language.slice(1)\<close>. The upper case shows in the
  title, and the Unicode table behind it is not part of the program: \<^verbatim>\<open>toUpperCase\<close>, the
  function of the platform on strings, is a parameter of the model. It is applied to
  the first code unit of the language (to the empty string when there is none).
\<close>

definition capitalize :: "(jstring \<Rightarrow> jstring) \<Rightarrow> jstring \<Rightarrow> jstring" where
  "capitalize toUpperCase language = toUpperCase (take 1 language) @ drop 1 language"

definition generateSessionTitle :: "(jstring \<Rightarrow> jstring) \<Rightarrow> jstring \<Rightarrow> jstring \<Rightarrow> jstring" where
  "generateSessionTitle toUpperCase code language =
     (if code = [] \<or> length (trim code) = 0 then js ''New '' @ language @ js '' Session''
      else
        let words = title_words code in
        if length words = 0 then capitalize toUpperCase language @ js '' Code''
        else
          let title = join (js '' '') words in
          if length title > 30 then take 27 title @ js ''...'' else title)"

text \<open>
  The title as section 4.2 of the specification words it, written from those words with
  operations of its own and compared with \<^const>\<open>generateSessionTitle\<close> below. Lines end at
  line feeds; trimming strips the white space at both ends; a token is a maximal run of
  code units that are not white space (the first argument of \<open>tokens_from\<close> is the token
  being read); two words match without regard to case when they agree letter by
  letter, a capital letter A to Z agreeing with its small letter.
\<close>

fun spec_lines :: "jstring \<Rightarrow> jstring list" where
  "spec_lines [] = [[]]"
| "spec_lines (c # cs) =
     (if c = 0x0A then [] # spec_lines cs
      else (case spec_lines cs of [] \<Rightarrow> [[c]] | l # ls \<Rightarrow> (c # l) # ls))"

fun spec_strip_end :: "jstring \<Rightarrow> jstring" where
  "spec_strip_end [] = []"
| "spec_strip_end (c # cs) = (if list_all is_ws (c # cs) then [] else c # spec_strip_end cs)"

definition spec_trim :: "jstring \<Rightarrow> jstring" where
  "spec_trim s = spec_strip_end (dropWhile is_ws s)"

fun spec_starts :: "jstring \<Rightarrow> jstring \<Rightarrow> bool" where
  "spec_starts [] line = True"
| "spec_starts (p # ps) [] = False"
| "spec_starts (p # ps) (c # cs) = (p = c \<and> spec_starts ps cs)"

fun tokens_from :: "jstring \<Rightarrow> jstring \<Rightarrow> jstring list" where
  "tokens_from cur [] = (if cur = [] then [] else [cur])"
| "tokens_from cur (c # cs) =
     (if is_ws c then (if cur = [] then tokens_from [] cs else cur # tokens_from [] cs)
      else tokens_from (cur @ [c]) cs)"

definition spec_same_letter :: "nat \<Rightarrow> nat \<Rightarrow> bool" where
  "spec_same_letter a b =
     (a = b \<or> (0x41 \<le> a \<and> a \<le> 0x5A \<and> b = a + 0x20) \<or>
      (0x41 \<le> b \<and> b \<le> 0x5A \<and> a = b + 0x20))"

definition spec_matches :: "jstring \<Rightarrow> jstring \<Rightarrow> bool" where
  "spec_matches t k = list_all2 spec_same_letter t k"

definition spec_join_spaces :: "jstring list \<Rightarrow> jstring" where
  "spec_join_spaces ws =
     (case ws of [] \<Rightarrow> [] | w # rest \<Rightarrow> w @ concat (map (\<lambda>x. 0x20 # x) rest))"

definition spec_comment_leaders :: "jstring list" where
  "spec_comment_leaders = map js [''//'', ''/*'', ''*'', ''#'', ''<!--'']"

definition spec_stop_words :: "jstring list" where
  "spec_stop_words =
     map js
       [''import'', ''from'', ''const'', ''let'', ''var'', ''function'', ''class'', ''export'',
        ''default'', ''return'', ''if'', ''else'', ''for'', ''while'', ''do'', ''try'', ''catch'',
        ''async'', ''await'']"

definition spec_punctuation :: "nat list" where
  "spec_punctuation = [0x7B, 0x7D, 0x28, 0x29, 0x3B, 0x2C, 0x5B, 0x5D, 0x22, 0x27, 0x60]"

definition spec_kept_lines :: "jstring \<Rightarrow> jstring list" where
  "spec_kept_lines code =
     filter (\<lambda>l. l \<noteq> [] \<and> \<not> list_ex (\<lambda>p. spec_starts p l) spec_comment_leaders)
       (map spec_trim (spec_lines code))"

definition spec_strip :: "jstring \<Rightarrow> jstring" where
  "spec_strip s = map (\<lambda>c. if c \<in> set spec_punctuation then 0x20 else c) s"

definition spec_survives :: "jstring \<Rightarrow> bool" where
  "spec_survives t = (\<not> length t \<le> 2 \<and> \<not> list_ex (spec_matches t) spec_stop_words)"

definition spec_survivors :: "jstring \<Rightarrow> jstring list" where
  "spec_survivors code =
     take 4 (filter spec_survives
       (tokens_from [] (spec_strip (spec_join_spaces (spec_kept_lines code)))))"

definition TitleDeriver :: "(jstring \<Rightarrow> jstring) \<Rightarrow> jstring \<Rightarrow> jstring \<Rightarrow> jstring" where
  "TitleDeriver toUpperCase code language =
     (if list_all is_ws code then js ''New '' @ language @ js '' Session''
      else if spec_survivors code = []
      then toUpperCase (take 1 language) @ drop 1 language @ js '' Code''
      else if length (spec_join_spaces (spec_survivors code)) > 30
      then take 27 (spec_join_spaces (spec_survivors code)) @ js ''...''
      else spec_join_spaces (spec_survivors code))"

section \<open>The language of a file (\<^verbatim>\<open>detectLanguageFromFile\<close>)\<close>

text \<open>
  The values a language can be at run time. The table of languages is an object
  literal: a lookup gives the string of a key of its own, and for the two inherited
  names in lower case a value that is no string, the function \<^verbatim>\<open>Object\<close> for
  \<^verbatim>\<open>constructor\<close> and the object \<^verbatim>\<open>Object.prototype\<close> for \<^verbatim>\<open>__proto__\<close>. \<open>JObject\<close> stands
  for an object without enumerable properties of its own: \<^verbatim>\<open>Object.prototype\<close>, and the
  \<^verbatim>\<open>{}\<close> it becomes in JSON.
\<close>

datatype js_value = JString jstring | JFunction | JObject

text \<open>
  \<^verbatim>\<open>v || d\<close> with a string default: the default stands in for \<^verbatim>\<open>undefined\<close>, \<^verbatim>\<open>null\<close> and
  the empty string; a function or an object is kept. \<open>or_default\<close> is the same on an
  optional string.
\<close>

definition or_default :: "jstring option \<Rightarrow> jstring \<Rightarrow> jstring" where
  "or_default v d = (case v of None \<Rightarrow> d | Some s \<Rightarrow> if s = [] then d else s)"

definition value_or_default :: "js_value option \<Rightarrow> jstring \<Rightarrow> js_value" where
  "value_or_default v d =
     (case v of
        None \<Rightarrow> JString d
      | Some (JString s) \<Rightarrow> if s = [] then JString d else JString s
      | Some JFunction \<Rightarrow> JFunction
      | Some JObject \<Rightarrow> JObject)"

text \<open>\<^verbatim>\<open>xs.pop()\<close>, the value it returns: the last element, \<^verbatim>\<open>undefined\<close> on the empty array.\<close>

definition pop :: "'a list \<Rightarrow> 'a option" where
  "pop xs = (if xs = [] then None else Some (last xs))"

definition languageMap :: "(jstring \<times> jstring) list" where
  "languageMap =
     map (\<lambda>(key, language). (js key, js language))
       [(''js'', ''javascript''), (''jsx'', ''javascript''), (''ts'', ''typescript''),
        (''tsx'', ''typescript''), (''py'', ''python''), (''java'', ''java''), (''cpp'', ''cpp''),
        (''c'', ''c''), (''html'', ''html''), (''css'', ''css''), (''scss'', ''scss''),
        (''json'', ''json''), (''xml'', ''xml''), (''php'', ''php''), (''rb'', ''ruby''),
        (''go'', ''go''), (''rs'', ''rust''), (''kt'', ''kotlin''), (''swift'', ''swift''),
        (''dart'', ''dart''), (''vue'', ''vue''), (''svelte'', ''svelte'')]"

text \<open>\<^verbatim>\<open>languageMap[key]\<close>: the keys of the table, then the two inherited names.\<close>

definition languageMap_get :: "jstring \<Rightarrow> js_value option" where
  "languageMap_get key =
     (case map_of languageMap key of
        Some language \<Rightarrow> Some (JString language)
      | None \<Rightarrow>
          if key = js ''constructor'' then Some JFunction
          else if key = js ''__proto__'' then Some JObject
          else None)"

definition detectLanguageFromFile :: "jstring \<Rightarrow> js_value" where
  "detectLanguageFromFile fileName =
     (let extension = map_option toLowerCase (pop (split_char 0x2E fileName))
      in value_or_default (languageMap_get (or_default extension [])) (js ''javascript''))"

section \<open>Resolving a repository (\<^verbatim>\<open>fetchGitHubRepo\<close>)\<close>

datatype file_type = File | Dir

record GitHubFile =
  gf_name :: jstring
  gf_path :: jstring
  gf_content :: jstring
  gf_size :: nat
  gf_type :: file_type
  gf_language :: "js_value option"

record GitHubRepo =
  repo_name :: jstring
  fullName :: jstring
  description :: jstring
  stars :: nat
  repo_language :: jstring
  files :: "GitHubFile list"

text \<open>One entry of the listing the contents request returns.\<close>

record content_item =
  item_name :: jstring
  item_path :: jstring
  item_type :: jstring
  item_size :: nat
  download_url :: jstring

text \<open>The fields read from the JSON of the repository request.\<close>

record repo_json =
  json_name :: jstring
  full_name :: jstring
  json_description :: "jstring option"
  stargazers_count :: nat
  json_language :: "jstring option"

text \<open>
  What \<^verbatim>\<open>fetch\<close> and \<^verbatim>\<open>text\<close> give for the download of a file: the promise is rejected
  (the request fails in the network, or the body cannot be read), or there is a
  response, with its \<^verbatim>\<open>ok\<close> flag (false for a status such as 404 or 429) and its body.
\<close>

datatype download = Rejected | Response bool jstring

text \<open>
  The hosting service, as the three requests see it. \<open>get_repo owner repo\<close> and
  \<open>get_contents owner repo\<close> are \<open>None\<close> when the response is not \<^verbatim>\<open>ok\<close> (or the request
  itself fails), which is what the source tests for these two; \<open>get_file url\<close> is the
  outcome of the download of a file.
\<close>

record github_env =
  get_repo :: "jstring \<Rightarrow> jstring \<Rightarrow> repo_json option"
  get_contents :: "jstring \<Rightarrow> jstring \<Rightarrow> content_item list option"
  get_file :: "jstring \<Rightarrow> download"

text \<open>The three errors the body of \<^verbatim>\<open>fetchGitHubRepo\<close> throws.\<close>

datatype fetch_error = InvalidGitHubURL | RepositoryNotFound | FailedToFetchContents

text \<open>
  \<^verbatim>\<open>repoUrl.match(/github\.com\/([^/]+)\/([^/]+)/)\<close>. \<open>match_here\<close> matches the pattern at the
  start of a string: both groups are greedy, so each is the whole run of code units up
  to the next slash, and must not be empty. \<open>match_url\<close> tries every start, leftmost
  first.
\<close>

definition not_slash :: "nat \<Rightarrow> bool" where
  "not_slash c = (c \<noteq> 0x2F)"

definition match_here :: "jstring \<Rightarrow> (jstring \<times> jstring) option" where
  "match_here s =
     (if startsWith s (js ''github.com/'') then
        let rest = drop (length (js ''github.com/'')) s;
            owner = takeWhile not_slash rest
        in if owner = [] then None
           else (case dropWhile not_slash rest of
                   [] \<Rightarrow> None
                 | _ # rest' \<Rightarrow>
                     let repo = takeWhile not_slash rest'
                     in if repo = [] then None else Some (owner, repo))
      else None)"

fun match_url :: "jstring \<Rightarrow> (jstring \<times> jstring) option" where
  "match_url [] = match_here []"
| "match_url (c # cs) =
     (case match_here (c # cs) of Some m \<Rightarrow> Some m | None \<Rightarrow> match_url cs)"

text \<open>\<^verbatim>\<open>repo.replace(/\.git$/, '')\<close>\<close>

definition strip_git :: "jstring \<Rightarrow> jstring" where
  "strip_git repo =
     (if 4 \<le> length repo \<and> drop (length repo - 4) repo = js ''.git''
      then take (length repo - 4) repo else repo)"

text \<open>
  One download: \<open>None\<close> (the \<^verbatim>\<open>null\<close> of the catch) when the promise is rejected; a file
  with the body as its content for every response, the \<^verbatim>\<open>ok\<close> flag not being read.
\<close>

definition fetch_file :: "github_env \<Rightarrow> content_item \<Rightarrow> GitHubFile option" where
  "fetch_file env item =
     (case get_file env (download_url item) of
        Rejected \<Rightarrow> None
      | Response ok content \<Rightarrow>
          Some \<lparr>gf_name = item_name item, gf_path = item_path item, gf_content = content,
                gf_size = item_size item, gf_type = File,
                gf_language = Some (detectLanguageFromFile (item_name item))\<rparr>)"

text \<open>\<^verbatim>\<open>contents.filter(item => item.type === 'file').slice(0, 10)\<close>\<close>

definition selected_items :: "content_item list \<Rightarrow> content_item list" where
  "selected_items contents = take 10 (filter (\<lambda>item. item_type item = js ''file'') contents)"

text \<open>The outcomes of the downloads, in the order of the selection (\<^verbatim>\<open>Promise.all\<close>).\<close>

definition resolvedFiles :: "github_env \<Rightarrow> content_item list \<Rightarrow> GitHubFile option list" where
  "resolvedFiles env contents = map (fetch_file env) (selected_items contents)"

text \<open>The body of the \<^verbatim>\<open>try\<close>, with the error it throws.\<close>

definition fetchGitHubRepo_try :: "github_env \<Rightarrow> jstring \<Rightarrow> fetch_error + GitHubRepo" where
  "fetchGitHubRepo_try env repoUrl =
     (case match_url repoUrl of
        None \<Rightarrow> Inl InvalidGitHubURL
      | Some (owner, repo) \<Rightarrow>
          let cleanRepo = strip_git repo in
          (case get_repo env owner cleanRepo of
             None \<Rightarrow> Inl RepositoryNotFound
           | Some repoData \<Rightarrow>
               (case get_contents env owner cleanRepo of
                  None \<Rightarrow> Inl FailedToFetchContents
                | Some contents \<Rightarrow>
                    Inr \<lparr>repo_name = json_name repoData,
                         fullName = full_name repoData,
                         description =
                           or_default (json_description repoData)
                             (js ''No description available''),
                         stars = stargazers_count repoData,
                         repo_language = or_default (json_language repoData) (js ''Unknown''),
                         files = List.map_filter (\<lambda>f. f) (resolvedFiles env contents)\<rparr>)))"

text \<open>The \<^verbatim>\<open>catch\<close> turns every error into \<^verbatim>\<open>null\<close>.\<close>

definition fetchGitHubRepo :: "github_env \<Rightarrow> jstring \<Rightarrow> GitHubRepo option" where
  "fetchGitHubRepo env repoUrl =
     (case fetchGitHubRepo_try env repoUrl of Inl e \<Rightarrow> None | Inr r \<Rightarrow> Some r)"

section \<open>Submitting (\<^verbatim>\<open>handleSubmit\<close>) and the sessions route (\<^verbatim>\<open>POST\<close>)\<close>

text \<open>
  An attached local file: its name, and what \<^verbatim>\<open>FileReader.readAsText\<close> gives for it
  (\<open>None\<close> when the reader reports an error).
\<close>

record local_file =
  lf_name :: jstring
  lf_text :: "jstring option"

datatype read_error = FailedToReadFile

definition readFileContent :: "local_file \<Rightarrow> read_error + jstring" where
  "readFileContent file =
     (case lf_text file of
        None \<Rightarrow> Inl FailedToReadFile
      | Some content \<Rightarrow> Inr (or_default (Some content) []))"

text \<open>
  The state of the component that the handlers read and write. \<open>internalValue\<close> is the
  text of the input (\<^verbatim>\<open>currentValue\<close> of \<^verbatim>\<open>handleSubmit\<close>: the property \<^verbatim>\<open>value\<close> when the
  component is controlled, the state \<^verbatim>\<open>internalValue\<close> otherwise),
  \<open>githubRepo\<close> the reference typed into the dialog, \<open>githubRepoData\<close> the snapshot. The
  flags \<^verbatim>\<open>isSubmitting\<close> and \<^verbatim>\<open>isLoadingRepo\<close> are set and cleared within one handler and
  are left out.
\<close>

record ui_state =
  internalValue :: jstring
  attachedFiles :: "local_file list"
  githubRepo :: jstring
  githubRepoData :: "GitHubRepo option"
  showGithubModal :: bool

definition handleGithubModalSubmit :: "github_env \<Rightarrow> ui_state \<Rightarrow> ui_state" where
  "handleGithubModalSubmit env st =
     (if trim (githubRepo st) \<noteq> [] then
        (case fetchGitHubRepo env (trim (githubRepo st)) of
           Some repoData \<Rightarrow> st\<lparr>githubRepoData := Some repoData, showGithubModal := False\<rparr>
         | None \<Rightarrow> st\<lparr>showGithubModal := False\<rparr>)
      else st\<lparr>showGithubModal := False\<rparr>)"

definition newline :: jstring where
  "newline = [0x0A]"

text \<open>
  The code and the language of the new session (\<^verbatim>\<open>codeContent\<close> and \<^verbatim>\<open>language\<close> of
  \<^verbatim>\<open>handleSubmit\<close>): both start from the text and the default, the first branch is the
  snapshot with at least one file, the second the attached files.
\<close>

definition submit_content ::
  "jstring \<Rightarrow> local_file list \<Rightarrow> GitHubRepo option \<Rightarrow> jstring \<times> js_value" where
  "submit_content currentValue localFiles repoData =
     (case (case repoData of
              None \<Rightarrow> None
            | Some repo \<Rightarrow> (case files repo of [] \<Rightarrow> None | firstFile # _ \<Rightarrow> Some (repo, firstFile))) of
        Some (repo, firstFile) \<Rightarrow>
          (if trim currentValue \<noteq> []
           then js ''// User Input: '' @ currentValue @ newline @ newline @
                js ''// GitHub Repository: '' @ fullName repo @ newline @
                js ''// File: '' @ gf_name firstFile @ newline @ gf_content firstFile
           else gf_content firstFile,
           value_or_default (gf_language firstFile) (js ''javascript''))
      | None \<Rightarrow>
          (case localFiles of
             [] \<Rightarrow> (currentValue, JString (js ''javascript''))
           | firstFile # _ \<Rightarrow>
               (case readFileContent firstFile of
                  Inr fileContent \<Rightarrow>
                    (if trim currentValue \<noteq> []
                     then js ''// User Input: '' @ currentValue @ newline @ newline @
                          js ''// File: '' @ lf_name firstFile @ newline @ fileContent
                     else fileContent,
                     detectLanguageFromFile (lf_name firstFile))
                | Inl e \<Rightarrow> (currentValue, JString (js ''javascript'')))))"

text \<open>
  \<^verbatim>\<open>JSON.stringify\<close> on a language: a property whose value is a function is left out, an
  object without enumerable properties is written \<^verbatim>\<open>{}\<close>.
\<close>

definition stringify_language :: "js_value \<Rightarrow> js_value option" where
  "stringify_language v =
     (case v of JString s \<Rightarrow> Some (JString s) | JFunction \<Rightarrow> None | JObject \<Rightarrow> Some JObject)"

definition stringify_file :: "GitHubFile \<Rightarrow> GitHubFile" where
  "stringify_file file =
     file\<lparr>gf_language := (case gf_language file of None \<Rightarrow> None | Some v \<Rightarrow> stringify_language v)\<rparr>"

text \<open>The part of the snapshot that is sent with the request.\<close>

record repo_payload =
  payload_name :: jstring
  payload_fullName :: jstring
  payload_files :: "GitHubFile list"

text \<open>The body of the request to the sessions route, as the route parses it.\<close>

record session_request =
  req_code :: jstring
  req_language :: "js_value option"
  req_initialMessage :: jstring
  req_githubRepo :: "repo_payload option"

definition submit_initialMessage ::
  "jstring \<Rightarrow> local_file list \<Rightarrow> GitHubRepo option \<Rightarrow> jstring" where
  "submit_initialMessage currentValue localFiles repoData =
     (if currentValue \<noteq> [] then currentValue
      else (case repoData of
              Some repo \<Rightarrow> js ''Opened GitHub repository: '' @ fullName repo
            | None \<Rightarrow>
                js ''Opened file: '' @
                or_default (case localFiles of [] \<Rightarrow> None | f # _ \<Rightarrow> Some (lf_name f))
                  (js ''Unknown'')))"

definition submit_request ::
  "jstring \<Rightarrow> local_file list \<Rightarrow> GitHubRepo option \<Rightarrow> session_request" where
  "submit_request currentValue localFiles repoData =
     \<lparr>req_code = fst (submit_content currentValue localFiles repoData),
      req_language = stringify_language (snd (submit_content currentValue localFiles repoData)),
      req_initialMessage = submit_initialMessage currentValue localFiles repoData,
      req_githubRepo =
        (case repoData of
           Some repo \<Rightarrow>
             Some \<lparr>payload_name = repo_name repo, payload_fullName = fullName repo,
                   payload_files = map stringify_file (files repo)\<rparr>
         | None \<Rightarrow> None)\<rparr>"

text \<open>
  The store: the session rows, each with its messages. Identifiers and time stamps are
  left out.
\<close>

datatype MessageType = USER | ASSISTANT

record ChatMessage =
  msg_content :: jstring
  msg_type :: MessageType

record CodeSession =
  session_code :: jstring
  session_language :: jstring
  session_title :: "jstring option"
  session_githubRepo :: "repo_payload option"
  session_messages :: "ChatMessage list"

text \<open>
  The route: one create of the session with its seed message. \<open>toUpperCase\<close> is the
  function of the platform that \<^const>\<open>generateSessionTitle\<close> uses, \<open>db_ok\<close> says whether the
  write succeeds; the result is the store and whether the response is \<^verbatim>\<open>ok\<close>. The
  column \<^verbatim>\<open>language\<close> is declared \<^verbatim>\<open>String\<close> in the schema: with a language that is no
  string nothing is created, and the \<^verbatim>\<open>catch\<close> answers with the status 500 (a function
  cannot arrive in JSON; the case is there for the definition to be total).
\<close>

definition POST ::
  "(jstring \<Rightarrow> jstring) \<Rightarrow> bool \<Rightarrow> CodeSession list \<Rightarrow> session_request \<Rightarrow>
   CodeSession list \<times> bool" where
  "POST toUpperCase db_ok db req =
     (case value_or_default (req_language req) (js ''javascript'') of
        JString language \<Rightarrow>
          let sessionTitle =
                generateSessionTitle toUpperCase (or_default (Some (req_code req)) []) language;
              session =
                \<lparr>session_code = req_code req,
                 session_language = language,
                 session_title = Some sessionTitle,
                 session_githubRepo = req_githubRepo req,
                 session_messages =
                   (if req_initialMessage req \<noteq> []
                    then [\<lparr>msg_content = req_initialMessage req, msg_type = USER\<rparr>] else [])\<rparr>
          in if db_ok then (db @ [session], True) else (db, False)
      | JFunction \<Rightarrow> (db, False)
      | JObject \<Rightarrow> (db, False))"

definition reset_after_submit :: "ui_state \<Rightarrow> ui_state" where
  "reset_after_submit st =
     st\<lparr>attachedFiles := [], githubRepo := [], githubRepoData := None,
        showGithubModal := False, internalValue := []\<rparr>"

definition handleSubmit ::
  "(jstring \<Rightarrow> jstring) \<Rightarrow> bool \<Rightarrow> CodeSession list \<Rightarrow> ui_state \<Rightarrow>
   CodeSession list \<times> ui_state" where
  "handleSubmit toUpperCase db_ok db st =
     (if trim (internalValue st) \<noteq> [] \<or> attachedFiles st \<noteq> [] \<or> githubRepoData st \<noteq> None
      then
        (case POST toUpperCase db_ok db
                (submit_request (internalValue st) (attachedFiles st) (githubRepoData st)) of
           (db', ok) \<Rightarrow> if ok then (db', reset_after_submit st) else (db', st))
      else (db, st))"

section \<open>Example data\<close>

text \<open>The upper case of the platform on ASCII text: the letters a to z.\<close>

definition ascii_toUpperCase :: "jstring \<Rightarrow> jstring" where
  "ascii_toUpperCase s = map (\<lambda>c. if 0x61 \<le> c \<and> c \<le> 0x7A then c - 0x20 else c) s"

text \<open>
  Codes: white space only (no-break space, tab, line feed, em space); a comment alone;
  comment lines of every kind before a line with stop words in capitals; a line whose
  first tokens are long.
\<close>

definition blank_code :: jstring where
  "blank_code = [0xA0, 0x09, 0x0A, 0x2003]"

definition comment_code :: jstring where
  "comment_code = js ''// just a comment'' @ [0x0A] @ js ''   ''"

definition commented_code :: jstring where
  "commented_code =
     js ''/* header */'' @ [0x0A] @ js '' * continued'' @ [0x0A] @ js ''# hash'' @ [0x0A] @
     js ''<!-- html -->'' @ [0x0A] @ js ''// slashes'' @ [0x0A] @
     js ''  CONST Alpha = FUNCTION(beta) { RETURN [gamma, delta, epsilon]; }''"

definition long_code :: jstring where
  "long_code = js ''const veryLongIdentifierNumberOne = anotherQuiteLongIdentifier + third''"

text \<open>
  A repository \<open>octo/demo\<close> whose listing holds a directory and four files: the download
  of \<open>b.ts\<close> is rejected, the download of \<open>d.md\<close> is answered with the status 404. Every
  other repository is not found.
\<close>

definition example_repo_json :: repo_json where
  "example_repo_json =
     \<lparr>json_name = js ''demo'', full_name = js ''octo/demo'', json_description = None,
      stargazers_count = 3, json_language = Some (js ''Python'')\<rparr>"

definition example_listing :: "content_item list" where
  "example_listing =
     [\<lparr>item_name = js ''src'', item_path = js ''src'', item_type = js ''dir'', item_size = 0,
       download_url = []\<rparr>,
      \<lparr>item_name = js ''a.js'', item_path = js ''a.js'', item_type = js ''file'',
       item_size = 12, download_url = js ''raw/a.js''\<rparr>,
      \<lparr>item_name = js ''b.ts'', item_path = js ''b.ts'', item_type = js ''file'',
       item_size = 7, download_url = js ''raw/b.ts''\<rparr>,
      \<lparr>item_name = js ''c.py'', item_path = js ''c.py'', item_type = js ''file'',
       item_size = 8, download_url = js ''raw/c.py''\<rparr>,
      \<lparr>item_name = js ''d.md'', item_path = js ''d.md'', item_type = js ''file'',
       item_size = 20, download_url = js ''raw/d.md''\<rparr>]"

definition example_env :: github_env where
  "example_env =
     \<lparr>get_repo = (\<lambda>owner repo.
        if owner = js ''octo'' \<and> repo = js ''demo'' then Some example_repo_json else None),
      get_contents = (\<lambda>owner repo.
        if owner = js ''octo'' \<and> repo = js ''demo'' then Some example_listing else None),
      get_file = (\<lambda>url.
        if url = js ''raw/b.ts'' then Rejected
        else if url = js ''raw/d.md'' then Response False (js ''404: Not Found'')
        else Response True (js ''// '' @ url))\<rparr>"

text \<open>A repository \<open>octo/dirs\<close> whose listing holds one directory and no file.\<close>

definition dirs_env :: github_env where
  "dirs_env =
     \<lparr>get_repo = (\<lambda>owner repo.
        if owner = js ''octo'' \<and> repo = js ''dirs''
        then Some \<lparr>json_name = js ''dirs'', full_name = js ''octo/dirs'',
                    json_description = None, stargazers_count = 0, json_language = None\<rparr>
        else None),
      get_contents = (\<lambda>owner repo.
        if owner = js ''octo'' \<and> repo = js ''dirs''
        then Some [\<lparr>item_name = js ''docs'', item_path = js ''docs'', item_type = js ''dir'',
                     item_size = 0, download_url = []\<rparr>]
        else None),
      get_file = (\<lambda>url. Rejected)\<rparr>"

text \<open>The snapshot without files that the resolution of \<open>octo/dirs\<close> returns.\<close>

definition empty_snapshot :: GitHubRepo where
  "empty_snapshot =
     \<lparr>repo_name = js ''dirs'', fullName = js ''octo/dirs'',
      description = js ''No description available'', stars = 0,
      repo_language = js ''Unknown'', files = []\<rparr>"

text \<open>The snapshot that the resolution of \<open>octo/demo\<close> returns.\<close>

definition example_snapshot :: GitHubRepo where
  "example_snapshot =
     \<lparr>repo_name = js ''demo'', fullName = js ''octo/demo'',
      description = js ''No description available'', stars = 3,
      repo_language = js ''Python'',
      files =
        [\<lparr>gf_name = js ''a.js'', gf_path = js ''a.js'', gf_content = js ''// raw/a.js'',
          gf_size = 12, gf_type = File, gf_language = Some (JString (js ''javascript''))\<rparr>,
         \<lparr>gf_name = js ''c.py'', gf_path = js ''c.py'', gf_content = js ''// raw/c.py'',
          gf_size = 8, gf_type = File, gf_language = Some (JString (js ''python''))\<rparr>,
         \<lparr>gf_name = js ''d.md'', gf_path = js ''d.md'', gf_content = js ''404: Not Found'',
          gf_size = 20, gf_type = File, gf_language = Some (JString (js ''javascript''))\<rparr>]\<rparr>"

definition readable_file :: local_file where
  "readable_file = \<lparr>lf_name = js ''notes.py'', lf_text = Some (js ''print(1)'')\<rparr>"

definition unreadable_file :: local_file where
  "unreadable_file = \<lparr>lf_name = js ''notes.py'', lf_text = None\<rparr>"

text \<open>
  A state in which the snapshot of \<open>octo/demo\<close> is attached and a reference that does not
  match the pattern has been typed into the dialog.
\<close>

definition stale_state :: ui_state where
  "stale_state =
     \<lparr>internalValue = [], attachedFiles = [], githubRepo = js ''octo/demo'',
      githubRepoData = Some example_snapshot, showGithubModal = True\<rparr>"

section \<open>Evaluation\<close>

text \<open>The definitions that a computation on given strings unfolds.\<close>

lemmas string_defs = js_def is_ws_def trim_def startsWith_def split_char_def split_ws_def
  toLowerUnit_def toLowerCase_def

lemmas title_defs = string_defs keep_line_def cleanCode_def code_symbols_def
  replace_symbols_def commonKeywords_def meaningful_def title_words_def

lemmas language_defs = string_defs pop_def languageMap_def languageMap_get_def
  or_default_def value_or_default_def detectLanguageFromFile_def

lemmas match_defs = string_defs not_slash_def match_here_def strip_git_def

lemma js_eq_Nil: "(js s = []) = (s = [])"
  by (simp add: js_def)

section \<open>Properties of the title\<close>

lemma js_space: "js '' '' = [0x20]"
  by (simp add: js_def)

lemma tokens_from_dropWhile: "tokens_from [] (dropWhile is_ws cs) = tokens_from [] cs"
  by (induction cs) auto

lemma split_ws_from_tokens:
  "filter (\<lambda>w. w \<noteq> []) (split_ws_from cur s) = tokens_from cur s"
  by (induction cur s rule: split_ws_from.induct) (auto simp: tokens_from_dropWhile)

lemma meaningful_nonempty: "meaningful w \<Longrightarrow> w \<noteq> []"
  by (auto simp: meaningful_def)

lemma startsWith_spec: "startsWith s p = spec_starts p s"
  by (induction p s rule: spec_starts.induct) (auto simp: startsWith_def)

lemma spec_lines_nonempty: "spec_lines s \<noteq> []"
  by (induction s) (auto split: list.splits)

lemma split_from_spec_lines:
  "split_from cur 0x0A s = (cur @ hd (spec_lines s)) # tl (spec_lines s)"
proof (induction s arbitrary: cur)
  case Nil
  then show ?case by simp
next
  case (Cons c cs)
  then show ?case
    using spec_lines_nonempty[of cs] by (auto split: list.splits)
qed

lemma split_char_spec: "split_char 0x0A s = spec_lines s"
  using spec_lines_nonempty[of s] by (simp add: split_char_def split_from_spec_lines)

lemma dropWhile_all: "list_all P xs \<Longrightarrow> dropWhile P xs = []"
  by (induction xs) auto

lemma spec_strip_end_all: "list_all is_ws xs \<Longrightarrow> spec_strip_end xs = []"
  by (cases xs) auto

lemma strip_end_spec: "rev (dropWhile is_ws (rev xs)) = spec_strip_end xs"
proof (induction xs)
  case Nil
  then show ?case by simp
next
  case (Cons c cs)
  show ?case
  proof (cases "list_all is_ws cs")
    case True
    then have "dropWhile is_ws (rev cs @ [c]) = dropWhile is_ws [c]"
      by (simp add: dropWhile_append list_all_iff)
    with True show ?thesis
      by (simp add: spec_strip_end_all)
  next
    case False
    then have "dropWhile is_ws (rev cs @ [c]) = dropWhile is_ws (rev cs) @ [c]"
      by (auto simp: dropWhile_append list_all_iff)
    with False Cons show ?thesis
      by simp
  qed
qed

lemma trim_spec: "trim s = spec_trim s"
  by (simp add: trim_def spec_trim_def strip_end_spec)

lemma trim_empty_iff: "trim s = [] \<longleftrightarrow> list_all is_ws s"
proof
  assume "trim s = []"
  then have "dropWhile is_ws (rev (dropWhile is_ws s)) = []"
    by (simp add: trim_def)
  then have "\<forall>c \<in> set (dropWhile is_ws s). is_ws c"
    by simp
  then have "dropWhile is_ws s = []"
    by (metis hd_dropWhile list.set_sel(1))
  then show "list_all is_ws s"
    by (simp add: list_all_iff)
next
  assume "list_all is_ws s"
  then show "trim s = []"
    by (simp add: trim_def dropWhile_all)
qed

lemma join_spec: "join [0x20] ws = spec_join_spaces ws"
  by (induction "[0x20::nat]" ws rule: join.induct) (auto simp: spec_join_spaces_def)

lemma lower_unit_matches:
  "0x61 \<le> y \<Longrightarrow> y \<le> 0x7A \<Longrightarrow> y \<noteq> 0x6B \<Longrightarrow> (toLowerUnit x = y) = spec_same_letter x y"
  by (auto simp: toLowerUnit_def spec_same_letter_def)

lemma lower_matches:
  "\<forall>y \<in> set k. 0x61 \<le> y \<and> y \<le> 0x7A \<and> y \<noteq> 0x6B \<Longrightarrow> (toLowerCase w = k) = spec_matches w k"
proof (induction w arbitrary: k)
  case Nil
  then show ?case
    by (auto simp: toLowerCase_def spec_matches_def)
next
  case (Cons x xs)
  show ?case
  proof (cases k)
    case Nil
    then show ?thesis
      by (simp add: toLowerCase_def spec_matches_def)
  next
    case (Cons y ys)
    with Cons.prems have y: "0x61 \<le> y" "y \<le> 0x7A" "y \<noteq> 0x6B"
      and ys: "\<forall>y \<in> set ys. 0x61 \<le> y \<and> y \<le> 0x7A \<and> y \<noteq> 0x6B"
      by simp_all
    from Cons.IH[OF ys] have "(map toLowerUnit xs = ys) = list_all2 spec_same_letter xs ys"
      by (simp add: toLowerCase_def spec_matches_def)
    with lower_unit_matches[OF y, of x] Cons show ?thesis
      by (simp add: toLowerCase_def spec_matches_def)
  qed
qed

lemma stop_words_small_letters:
  "\<forall>k \<in> set spec_stop_words. \<forall>y \<in> set k. 0x61 \<le> y \<and> y \<le> 0x7A \<and> y \<noteq> 0x6B"
  by (simp add: spec_stop_words_def js_def)

lemma commonKeywords_spec: "commonKeywords = spec_stop_words"
  by (simp add: commonKeywords_def spec_stop_words_def)

lemma keyword_spec:
  "(toLowerCase w \<in> set commonKeywords) = list_ex (spec_matches w) spec_stop_words"
proof -
  have "(toLowerCase w \<in> set spec_stop_words) =
        (\<exists>k \<in> set spec_stop_words. toLowerCase w = k)"
    by auto
  also have "\<dots> = (\<exists>k \<in> set spec_stop_words. spec_matches w k)"
  proof (rule bex_cong)
    fix k
    assume "k \<in> set spec_stop_words"
    with stop_words_small_letters
    have "\<forall>y \<in> set k. 0x61 \<le> y \<and> y \<le> 0x7A \<and> y \<noteq> 0x6B"
      by blast
    then show "(toLowerCase w = k) = spec_matches w k"
      by (rule lower_matches)
  qed simp
  finally show ?thesis
    by (simp add: commonKeywords_spec list_ex_iff)
qed

lemma meaningful_survives: "meaningful w = spec_survives w"
  by (simp add: meaningful_def spec_survives_def keyword_spec not_le)

text \<open>
  The empty pieces that \<^verbatim>\<open>split(/\s+/)\<close> leaves at the two ends never pass the filter, so
  the filter sees the tokens.
\<close>

lemma filter_meaningful_split_ws:
  "filter meaningful (split_ws s) = filter spec_survives (tokens_from [] s)"
proof -
  have "filter meaningful (split_ws s) =
        filter meaningful (filter (\<lambda>w. w \<noteq> []) (split_ws_from [] s))"
    by (auto simp: split_ws_def intro!: filter_cong dest: meaningful_nonempty)
  also have "\<dots> = filter meaningful (tokens_from [] s)"
    by (simp only: split_ws_from_tokens)
  also have "\<dots> = filter spec_survives (tokens_from [] s)"
    by (rule filter_cong) (simp_all add: meaningful_survives)
  finally show ?thesis .
qed

lemma keep_line_spec:
  "keep_line l = (l \<noteq> [] \<and> \<not> list_ex (\<lambda>p. spec_starts p l) spec_comment_leaders)"
  by (simp add: keep_line_def spec_comment_leaders_def startsWith_spec)

lemma cleanCode_spec: "cleanCode code = spec_join_spaces (spec_kept_lines code)"
proof -
  have "filter keep_line (map trim (split_char 0x0A code)) = spec_kept_lines code"
    unfolding spec_kept_lines_def split_char_spec
    by (simp add: keep_line_spec trim_spec[abs_def] cong: filter_cong)
  then show ?thesis
    by (simp add: cleanCode_def js_space join_spec)
qed

lemma replace_symbols_spec: "replace_symbols s = spec_strip s"
  by (simp add: replace_symbols_def code_symbols_def spec_punctuation_def spec_strip_def js_def)

lemma title_words_spec: "title_words code = spec_survivors code"
  by (simp only: title_words_def spec_survivors_def filter_meaningful_split_ws
      replace_symbols_spec cleanCode_spec)

lemma title_eq_spec:
  "generateSessionTitle toUpperCase code language = TitleDeriver toUpperCase code language"
proof (cases "list_all is_ws code")
  case True
  then have "trim code = []"
    by (simp only: trim_empty_iff)
  with True show ?thesis
    by (simp add: generateSessionTitle_def TitleDeriver_def)
next
  case False
  then have "trim code \<noteq> []" "code \<noteq> []"
    by (auto simp: trim_empty_iff)
  with False show ?thesis
    by (simp add: generateSessionTitle_def TitleDeriver_def title_words_spec Let_def
        capitalize_def js_space join_spec)
qed

lemma kept_lines_blank:
  "list_all is_ws cur \<Longrightarrow> list_all is_ws s \<Longrightarrow>
   filter keep_line (map trim (split_from cur d s)) = []"
proof (induction s arbitrary: cur)
  case Nil
  then show ?case
    by (simp add: trim_empty_iff keep_line_def)
next
  case (Cons c cs)
  then show ?case
    by (simp add: trim_empty_iff keep_line_def)
qed

lemma title_words_blank: "trim code = [] \<Longrightarrow> title_words code = []"
  by (simp add: trim_empty_iff title_words_def cleanCode_def split_char_def kept_lines_blank
      replace_symbols_def split_ws_def meaningful_def)

lemma join_nonempty: "xs \<noteq> [] \<Longrightarrow> hd xs \<noteq> [] \<Longrightarrow> join sep xs \<noteq> []"
  by (induction sep xs rule: join.induct) auto

lemma title_words_meaningful: "w \<in> set (title_words code) \<Longrightarrow> meaningful w"
  by (auto simp: title_words_def dest: in_set_takeD)

lemma join_title_words_nonempty:
  assumes "title_words code \<noteq> []"
  shows "join (js '' '') (title_words code) \<noteq> []"
proof -
  from assms have "hd (title_words code) \<in> set (title_words code)"
    by simp
  then have "hd (title_words code) \<noteq> []"
    using title_words_meaningful meaningful_nonempty by blast
  with assms show ?thesis
    by (rule join_nonempty)
qed

text \<open>The three forms of the title.\<close>

lemma title_blank:
  assumes "trim code = []"
  shows "generateSessionTitle toUpperCase code language = js ''New '' @ language @ js '' Session''"
  using assms by (simp add: generateSessionTitle_def)

lemma title_no_words:
  assumes "trim code \<noteq> []" and "title_words code = []"
  shows "generateSessionTitle toUpperCase code language =
         capitalize toUpperCase language @ js '' Code''"
proof -
  from assms(1) have "code \<noteq> []"
    by (auto simp: trim_def)
  with assms show ?thesis
    by (simp add: generateSessionTitle_def)
qed

lemma title_from_words:
  assumes "title_words code \<noteq> []"
  shows "generateSessionTitle toUpperCase code language =
     (if length (join (js '' '') (title_words code)) > 30
      then take 27 (join (js '' '') (title_words code)) @ js ''...''
      else join (js '' '') (title_words code))"
proof -
  from assms have blank: "trim code \<noteq> []"
    using title_words_blank by blast
  then have "code \<noteq> []"
    by (auto simp: trim_def)
  with assms blank show ?thesis
    by (simp add: generateSessionTitle_def Let_def)
qed

lemma join_no_words: "title_words code = [] \<Longrightarrow> length (join (js '' '') (title_words code)) = 0"
  by simp

lemma length_title_blank:
  "length (js ''New '' @ language @ js '' Session'') = length language + 12"
  by (simp add: js_def)

lemma length_title_no_words:
  "length (capitalize toUpperCase language @ js '' Code'') =
   length (capitalize toUpperCase language) + 5"
  by (simp add: js_def)

lemma words_comment_code: "trim comment_code \<noteq> [] \<and> title_words comment_code = []"
  by (simp add: comment_code_def title_defs)

lemma words_add_code:
  "title_words (js ''function add(a, b) { return a + b; }'') = [js ''add'']"
  by (simp add: title_defs)

lemma words_commented_code:
  "title_words commented_code = map js [''Alpha'', ''beta'', ''gamma'', ''delta'']"
  by (simp add: commented_code_def title_defs)

lemma words_long_code:
  "title_words long_code =
     map js [''veryLongIdentifierNumberOne'', ''anotherQuiteLongIdentifier'', ''third'']"
  by (simp add: long_code_def title_defs)

lemma trim_blank_code: "trim blank_code = []"
  by (simp add: blank_code_def trim_def is_ws_def)

text \<open>
  C1, as the specification states it, asks for at most 30 characters whatever the code
  and the language are. The two titles that are built from the language are not cut:
  with an empty code and the 21 characters of the language below, the title has 33
  characters.
\<close>

theorem title_longer_than_30:
  "generateSessionTitle ascii_toUpperCase [] (js ''objective-c-plus-plus'') =
     js ''New objective-c-plus-plus Session'' \<and>
   \<not> length (generateSessionTitle ascii_toUpperCase [] (js ''objective-c-plus-plus'')) \<le> 30"
  by (simp add: generateSessionTitle_def js_def)

text \<open>
  C1, amended. The title is a function of the code and the language alone (and of the
  upper case of the platform), and it is never empty. It has at most 30 characters
  whenever it is built from surviving tokens. For a blank code it is \<open>New <language> Session\<close>,
  within 30 characters exactly when the language has at most 18; without a surviving
  token it is the capitalised language and \<open>Code\<close>, within 30 characters exactly when
  the capitalised language has at most 25. Whenever the first four surviving tokens,
  joined with single spaces, exceed 30 characters, the title is exactly their first 27
  characters followed by three dots.
\<close>

theorem title_length:
  "(\<forall>code' language'. code' = code \<and> language' = language \<longrightarrow>
      generateSessionTitle toUpperCase code' language' =
      generateSessionTitle toUpperCase code language) \<and>
   generateSessionTitle toUpperCase code language \<noteq> [] \<and>
   (title_words code \<noteq> [] \<longrightarrow> length (generateSessionTitle toUpperCase code language) \<le> 30) \<and>
   (trim code = [] \<longrightarrow>
      generateSessionTitle toUpperCase code language = js ''New '' @ language @ js '' Session'' \<and>
      (length (generateSessionTitle toUpperCase code language) \<le> 30) = (length language \<le> 18)) \<and>
   (trim code \<noteq> [] \<and> title_words code = [] \<longrightarrow>
      generateSessionTitle toUpperCase code language =
        capitalize toUpperCase language @ js '' Code'' \<and>
      (length (generateSessionTitle toUpperCase code language) \<le> 30) =
        (length (capitalize toUpperCase language) \<le> 25)) \<and>
   (length language \<le> 18 \<and> length (capitalize toUpperCase language) \<le> 25 \<longrightarrow>
      length (generateSessionTitle toUpperCase code language) \<le> 30) \<and>
   (length (join (js '' '') (title_words code)) > 30 \<longrightarrow>
      generateSessionTitle toUpperCase code language =
        take 27 (join (js '' '') (title_words code)) @ js ''...'')"
proof (cases "title_words code = []")
  case True
  note no_words = True
  show ?thesis
  proof (cases "trim code = []")
    case True
    from title_blank[OF True, of toUpperCase language]
    have "generateSessionTitle toUpperCase code language =
        js ''New '' @ language @ js '' Session''" .
    moreover from this
    have "length (generateSessionTitle toUpperCase code language) = length language + 12"
      by (simp only: length_title_blank)
    ultimately show ?thesis
      using True no_words by (auto simp: js_def)
  next
    case False
    from title_no_words[OF False no_words, of toUpperCase language]
    have "generateSessionTitle toUpperCase code language =
        capitalize toUpperCase language @ js '' Code''" .
    moreover from this
    have "length (generateSessionTitle toUpperCase code language) =
        length (capitalize toUpperCase language) + 5"
      by (simp only: length_title_no_words)
    ultimately show ?thesis
      using False no_words by (auto simp: js_def)
  qed
next
  case False
  note tw = title_from_words[OF False, of toUpperCase language]
  have ne: "join (js '' '') (title_words code) \<noteq> []"
    using False by (rule join_title_words_nonempty)
  have not_blank: "trim code \<noteq> []"
    using False title_words_blank by blast
  show ?thesis
  proof (cases "length (join (js '' '') (title_words code)) > 30")
    case True
    with tw have "generateSessionTitle toUpperCase code language =
        take 27 (join (js '' '') (title_words code)) @ js ''...''"
      by simp
    moreover from True
    have "length (take 27 (join (js '' '') (title_words code)) @ js ''...'') = 30"
      by (simp add: js_def)
    ultimately show ?thesis
      using True False not_blank by (auto simp: js_def)
  next
    case short: False
    with tw have "generateSessionTitle toUpperCase code language =
        join (js '' '') (title_words code)"
      by simp
    with short ne False not_blank show ?thesis
      by auto
  qed
qed

theorem title_length_witness:
  "title_words long_code \<noteq> [] \<and>
   length (join (js '' '') (title_words long_code)) > 30 \<and>
   generateSessionTitle ascii_toUpperCase long_code (js ''javascript'') =
     js ''veryLongIdentifierNumberOne...'' \<and>
   length (generateSessionTitle ascii_toUpperCase long_code (js ''javascript'')) \<le> 30 \<and>
   trim blank_code = [] \<and>
   generateSessionTitle ascii_toUpperCase blank_code (js ''python'') =
     js ''New python Session'' \<and>
   trim comment_code \<noteq> [] \<and> title_words comment_code = [] \<and>
   generateSessionTitle ascii_toUpperCase comment_code (js ''javascript'') =
     js ''Javascript Code'' \<and>
   length (js ''javascript'') \<le> 18 \<and>
   length (capitalize ascii_toUpperCase (js ''javascript'')) \<le> 25 \<and>
   length (generateSessionTitle ascii_toUpperCase comment_code (js ''javascript'')) \<le> 30"
proof -
  note long = title_length[of long_code "js ''javascript''" ascii_toUpperCase]
  note blank = title_length[of blank_code "js ''python''" ascii_toUpperCase]
  note comment = title_length[of comment_code "js ''javascript''" ascii_toUpperCase]
  have words: "title_words long_code \<noteq> []"
    by (simp add: words_long_code)
  have over: "length (join (js '' '') (title_words long_code)) > 30"
    by (simp add: words_long_code js_def)
  have "generateSessionTitle ascii_toUpperCase long_code (js ''javascript'') =
      take 27 (join (js '' '') (title_words long_code)) @ js ''...''"
    by (rule long[THEN conjunct2, THEN conjunct2, THEN conjunct2, THEN conjunct2,
          THEN conjunct2, THEN conjunct2, THEN mp, OF over])
  then have long_title: "generateSessionTitle ascii_toUpperCase long_code (js ''javascript'') =
      js ''veryLongIdentifierNumberOne...''"
    by (simp add: words_long_code js_def)
  have long_bound:
    "length (generateSessionTitle ascii_toUpperCase long_code (js ''javascript'')) \<le> 30"
    by (rule long[THEN conjunct2, THEN conjunct2, THEN conjunct1, THEN mp, OF words])
  have blank_title: "generateSessionTitle ascii_toUpperCase blank_code (js ''python'') =
      js ''New python Session''"
    using blank[THEN conjunct2, THEN conjunct2, THEN conjunct2, THEN conjunct1, THEN mp,
        OF trim_blank_code, THEN conjunct1]
    by (simp add: js_def)
  have cap: "capitalize ascii_toUpperCase (js ''javascript'') = js ''Javascript''"
    by (simp add: capitalize_def ascii_toUpperCase_def js_def)
  have comment_title:
    "generateSessionTitle ascii_toUpperCase comment_code (js ''javascript'') =
      js ''Javascript Code''"
    using comment[THEN conjunct2, THEN conjunct2, THEN conjunct2, THEN conjunct2,
        THEN conjunct1, THEN mp, OF words_comment_code, THEN conjunct1]
    by (simp add: cap) (simp add: js_def)
  have short: "length (js ''javascript'') \<le> 18"
    by (simp add: js_def)
  have cap_short: "length (capitalize ascii_toUpperCase (js ''javascript'')) \<le> 25"
    by (simp add: cap) (simp add: js_def)
  have comment_bound:
    "length (generateSessionTitle ascii_toUpperCase comment_code (js ''javascript'')) \<le> 30"
    by (rule comment[THEN conjunct2, THEN conjunct2, THEN conjunct2, THEN conjunct2,
          THEN conjunct2, THEN conjunct1, THEN mp, OF conjI, OF short cap_short])
  from words over long_title long_bound trim_blank_code blank_title
    words_comment_code[THEN conjunct1] words_comment_code[THEN conjunct2]
    comment_title short cap_short comment_bound
  show ?thesis
    by (intro conjI)
qed

text \<open>
  C2. The title the code computes is the title of section 4.2: blank code gives
  \<open>New <language> Session\<close>; otherwise the lines are trimmed, empty lines and lines that
  start with a comment leader are dropped, the listed symbols become spaces, tokens of
  at most two characters and stop words (in either case) are dropped, the first four
  survivors are joined with single spaces (and cut to 27 characters and three dots when
  over 30), and without a survivor the title is the capitalised language and \<open>Code\<close>.
  The examples of the specification, and one for each step, evaluate as it says, on a
  platform whose upper case of \<open>j\<close> is \<open>J\<close>.
\<close>

theorem title_follows_spec:
  "generateSessionTitle toUpperCase code language = TitleDeriver toUpperCase code language \<and>
   generateSessionTitle toUpperCase [] (js ''python'') = js ''New python Session'' \<and>
   generateSessionTitle toUpperCase blank_code (js ''python'') = js ''New python Session'' \<and>
   (toUpperCase (js ''j'') = js ''J'' \<longrightarrow>
      generateSessionTitle toUpperCase comment_code (js ''javascript'') = js ''Javascript Code'') \<and>
   generateSessionTitle toUpperCase (js ''function add(a, b) { return a + b; }'')
     (js ''javascript'') = js ''add'' \<and>
   generateSessionTitle toUpperCase commented_code (js ''javascript'') =
     js ''Alpha beta gamma delta'' \<and>
   generateSessionTitle toUpperCase long_code (js ''javascript'') =
     js ''veryLongIdentifierNumberOne...''"
proof (intro conjI impI)
  show "generateSessionTitle toUpperCase code language = TitleDeriver toUpperCase code language"
    by (rule title_eq_spec)
  show "generateSessionTitle toUpperCase [] (js ''python'') = js ''New python Session''"
    by (simp add: generateSessionTitle_def js_def)
  show "generateSessionTitle toUpperCase blank_code (js ''python'') = js ''New python Session''"
    by (simp add: title_blank[OF trim_blank_code] js_def)
  show "generateSessionTitle toUpperCase comment_code (js ''javascript'') =
      js ''Javascript Code''" if "toUpperCase (js ''j'') = js ''J''"
  proof -
    from that have upper: "toUpperCase [0x6A] = [0x4A]"
      by (simp add: js_def)
    have "capitalize toUpperCase (js ''javascript'') = js ''Javascript''"
      by (simp add: capitalize_def js_def upper)
    then show ?thesis
      using words_comment_code by (simp add: title_no_words) (simp add: js_def)
  qed
  show "generateSessionTitle toUpperCase (js ''function add(a, b) { return a + b; }'')
      (js ''javascript'') = js ''add''"
    by (simp add: title_from_words words_add_code) (simp add: js_def)
  show "generateSessionTitle toUpperCase commented_code (js ''javascript'') =
      js ''Alpha beta gamma delta''"
    by (simp add: title_from_words words_commented_code) (simp add: js_def)
  show "generateSessionTitle toUpperCase long_code (js ''javascript'') =
      js ''veryLongIdentifierNumberOne...''"
    by (simp add: title_from_words words_long_code) (simp add: js_def)
qed

theorem title_follows_spec_witness:
  "ascii_toUpperCase (js ''j'') = js ''J'' \<and>
   generateSessionTitle ascii_toUpperCase commented_code (js ''javascript'') =
     TitleDeriver ascii_toUpperCase commented_code (js ''javascript'') \<and>
   TitleDeriver ascii_toUpperCase commented_code (js ''javascript'') =
     js ''Alpha beta gamma delta'' \<and>
   generateSessionTitle ascii_toUpperCase comment_code (js ''javascript'') =
     js ''Javascript Code''"
proof -
  have upper: "ascii_toUpperCase (js ''j'') = js ''J''"
    by (simp add: ascii_toUpperCase_def js_def)
  note r = title_follows_spec[of ascii_toUpperCase commented_code "js ''javascript''"]
  have same: "generateSessionTitle ascii_toUpperCase commented_code (js ''javascript'') =
     TitleDeriver ascii_toUpperCase commented_code (js ''javascript'')"
    by (rule r[THEN conjunct1])
  have title: "generateSessionTitle ascii_toUpperCase commented_code (js ''javascript'') =
     js ''Alpha beta gamma delta''"
    by (rule r[THEN conjunct2, THEN conjunct2, THEN conjunct2, THEN conjunct2, THEN conjunct2,
          THEN conjunct1])
  have spec_title: "TitleDeriver ascii_toUpperCase commented_code (js ''javascript'') =
     js ''Alpha beta gamma delta''"
    using same title by simp
  have comment: "generateSessionTitle ascii_toUpperCase comment_code (js ''javascript'') =
     js ''Javascript Code''"
    by (rule r[THEN conjunct2, THEN conjunct2, THEN conjunct2, THEN conjunct1, THEN mp,
          OF upper])
  from upper same spec_title comment show ?thesis
    by (intro conjI)
qed

section \<open>Properties of the repository resolution\<close>

lemma or_default_nonempty: "d \<noteq> [] \<Longrightarrow> or_default v d \<noteq> []"
  by (simp add: or_default_def split: option.splits)

lemma value_or_default_nonempty: "d \<noteq> [] \<Longrightarrow> value_or_default v d \<noteq> JString []"
  by (simp add: value_or_default_def split: option.splits js_value.splits)

lemma detectLanguageFromFile_nonempty: "detectLanguageFromFile fileName \<noteq> JString []"
  by (simp add: detectLanguageFromFile_def Let_def value_or_default_nonempty js_def)

lemma fetch_file_None: "fetch_file env item = None \<longleftrightarrow> get_file env (download_url item) = Rejected"
  by (simp add: fetch_file_def split: download.splits)

lemma length_selected_items: "length (selected_items contents) \<le> 10"
  by (simp add: selected_items_def)

lemma selected_items_files:
  "item \<in> set (selected_items contents) \<Longrightarrow> item_type item = js ''file''"
  by (auto simp: selected_items_def dest: in_set_takeD)

lemma map_filter_outcomes:
  "map Some (List.map_filter (\<lambda>f. f) outcomes) = filter (\<lambda>r. r \<noteq> None) outcomes"
  by (induction outcomes) auto

lemma map_filter_map: "List.map_filter (\<lambda>f. f) (map g xs) = List.map_filter g xs"
  by (induction xs) (auto split: option.splits)

lemma length_map_filter_le: "length (List.map_filter f xs) \<le> length xs"
  by (induction xs) (auto split: option.splits)

lemma fetchGitHubRepo_try_ok:
  assumes "match_url repoUrl = Some (owner, repo)"
    and "get_repo env owner (strip_git repo) = Some repoData"
    and "get_contents env owner (strip_git repo) = Some contents"
  shows "fetchGitHubRepo_try env repoUrl =
     Inr \<lparr>repo_name = json_name repoData, fullName = full_name repoData,
          description = or_default (json_description repoData) (js ''No description available''),
          stars = stargazers_count repoData,
          repo_language = or_default (json_language repoData) (js ''Unknown''),
          files = List.map_filter (\<lambda>f. f) (resolvedFiles env contents)\<rparr>"
  using assms by (simp add: fetchGitHubRepo_try_def)

text \<open>
  A resolved snapshot has at most 10 files, every one from a listing entry of kind
  \<open>file\<close>, in the order of the listing.
\<close>

lemma snapshot_at_most_10_files:
  assumes "fetchGitHubRepo env repoUrl = Some snapshot"
  shows "length (files snapshot) \<le> 10"
proof -
  from assms obtain contents where
    "files snapshot = List.map_filter (\<lambda>f. f) (resolvedFiles env contents)"
    by (auto simp: fetchGitHubRepo_def fetchGitHubRepo_try_def Let_def
        split: sum.splits option.splits prod.splits)
  moreover have "length (resolvedFiles env contents) \<le> 10"
    by (simp add: resolvedFiles_def length_selected_items)
  ultimately show ?thesis
    using length_map_filter_le[of "\<lambda>f. f" "resolvedFiles env contents"] by simp
qed

text \<open>
  Once the reference matches and the two requests for the repository and its listing
  succeed, the resolution returns a snapshot whatever the downloads do: its files are
  the outcomes of the downloads of the selected entries, in their order, without the
  rejected ones. Every response gives a file, whatever its status.
\<close>

lemma snapshot_files_are_responses:
  assumes "match_url repoUrl = Some (owner, repo)"
    and "get_repo env owner (strip_git repo) = Some repoData"
    and "get_contents env owner (strip_git repo) = Some contents"
  shows "map_option files (fetchGitHubRepo env repoUrl) =
           Some (List.map_filter (fetch_file env) (selected_items contents))"
    and "map Some (List.map_filter (fetch_file env) (selected_items contents)) =
           filter (\<lambda>r. r \<noteq> None) (map (fetch_file env) (selected_items contents))"
    and "fetchGitHubRepo_try env repoUrl \<noteq> Inl e"
proof -
  have mf: "List.map_filter (\<lambda>f. f) (map (fetch_file env) (selected_items contents)) =
            List.map_filter (fetch_file env) (selected_items contents)"
    by (rule map_filter_map)
  show "map_option files (fetchGitHubRepo env repoUrl) =
        Some (List.map_filter (fetch_file env) (selected_items contents))"
    by (simp add: fetchGitHubRepo_def fetchGitHubRepo_try_ok[OF assms] resolvedFiles_def mf)
  show "map Some (List.map_filter (fetch_file env) (selected_items contents)) =
      filter (\<lambda>r. r \<noteq> None) (map (fetch_file env) (selected_items contents))"
    using map_filter_outcomes[of "map (fetch_file env) (selected_items contents)"]
    by (simp only: mf)
  show "fetchGitHubRepo_try env repoUrl \<noteq> Inl e"
    by (simp add: fetchGitHubRepo_try_ok[OF assms])
qed

lemma split_from_nonempty: "split_from cur d s \<noteq> []"
  by (induction s arbitrary: cur) auto

text \<open>
  The language is looked up under the last piece of the name split at the dots, in lower
  case; a piece that the table does not answer gives \<open>javascript\<close>.
\<close>

lemma detectLanguageFromFile_lookup:
  "detectLanguageFromFile fileName =
     value_or_default (languageMap_get (toLowerCase (last (split_char 0x2E fileName))))
       (js ''javascript'')"
  by (simp add: detectLanguageFromFile_def pop_def split_char_def split_from_nonempty
      Let_def or_default_def languageMap_get_def languageMap_def js_def)

lemma example_url_match:
  "match_url (js ''https://github.com/octo/demo.git'') = Some (js ''octo'', js ''demo.git'')"
  by (simp add: match_defs)

lemma example_resolution:
  "fetchGitHubRepo example_env (js ''https://github.com/octo/demo.git'') = Some example_snapshot"
proof -
  have repo: "get_repo example_env (js ''octo'') (strip_git (js ''demo.git'')) =
      Some example_repo_json"
    by (simp add: example_env_def match_defs)
  have listing: "get_contents example_env (js ''octo'') (strip_git (js ''demo.git'')) =
      Some example_listing"
    by (simp add: example_env_def match_defs)
  have fetched: "List.map_filter (\<lambda>f. f) (resolvedFiles example_env example_listing) =
      files example_snapshot"
    by (simp add: resolvedFiles_def selected_items_def example_listing_def fetch_file_def
        example_env_def example_snapshot_def language_defs)
  have "fetchGitHubRepo_try example_env (js ''https://github.com/octo/demo.git'') =
      Inr example_snapshot"
    unfolding fetchGitHubRepo_try_ok[OF example_url_match repo listing] fetched
    by (simp add: example_repo_json_def example_snapshot_def or_default_def js_eq_Nil)
  then show ?thesis
    by (simp add: fetchGitHubRepo_def)
qed

text \<open>
  C4 asks that a name without an extension is tagged \<open>javascript\<close>. The extension is
  taken as the last piece of the name split at the dots, which for a name without a dot
  is the whole name: the file \<open>go\<close> is tagged \<open>go\<close>, also as a file of a repository.
\<close>

theorem name_without_extension_is_looked_up:
  "detectLanguageFromFile (js ''go'') = JString (js ''go'') \<and>
   map_option gf_language
     (fetch_file \<lparr>get_repo = (\<lambda>owner repo. None), get_contents = (\<lambda>owner repo. None),
                  get_file = (\<lambda>url. Response True (js ''#!/bin/sh''))\<rparr>
        \<lparr>item_name = js ''go'', item_path = js ''go'', item_type = js ''file'', item_size = 9,
         download_url = js ''https://raw.githubusercontent.com/o/r/main/go''\<rparr>) =
     Some (Some (JString (js ''go'')))"
  by (simp add: fetch_file_def language_defs)

text \<open>
  C5 asks that a file whose download fails is dropped. A download whose promise is
  rejected is dropped; a download that is answered with an error status is kept, the
  body of the error as its content, since the \<^verbatim>\<open>ok\<close> flag of the response is not read (the
  requests for the repository and for the listing do read it). In \<open>octo/demo\<close> the
  download of \<open>b.ts\<close> is rejected and is dropped, the download of \<open>d.md\<close> is answered with
  the status 404 and is a file of the snapshot.
\<close>

theorem not_found_download_is_kept:
  "get_file example_env (js ''raw/b.ts'') = Rejected \<and>
   get_file example_env (js ''raw/d.md'') = Response False (js ''404: Not Found'') \<and>
   map_option (map (\<lambda>file. (gf_name file, gf_content file)))
     (map_option files
        (fetchGitHubRepo example_env (js ''https://github.com/octo/demo.git''))) =
     Some [(js ''a.js'', js ''// raw/a.js''), (js ''c.py'', js ''// raw/c.py''),
           (js ''d.md'', js ''404: Not Found'')]"
  by (simp add: example_resolution) (simp add: example_env_def example_snapshot_def js_def)

section \<open>Properties of the submit handler\<close>

lemma fetchGitHubRepo_invalid:
  "match_url repoUrl = None \<Longrightarrow> fetchGitHubRepo_try env repoUrl = Inl InvalidGitHubURL"
  by (simp add: fetchGitHubRepo_try_def)

lemma fetchGitHubRepo_not_found:
  "match_url repoUrl = Some (owner, repo) \<Longrightarrow> get_repo env owner (strip_git repo) = None \<Longrightarrow>
   fetchGitHubRepo_try env repoUrl = Inl RepositoryNotFound"
  by (simp add: fetchGitHubRepo_try_def)

lemma handleGithubModalSubmit_failed:
  "fetchGitHubRepo env (trim (githubRepo st)) = None \<Longrightarrow>
   handleGithubModalSubmit env st = st\<lparr>showGithubModal := False\<rparr>"
  by (simp add: handleGithubModalSubmit_def)

lemma handleGithubModalSubmit_no_reference:
  "handleGithubModalSubmit env (st\<lparr>githubRepo := []\<rparr>) =
   st\<lparr>githubRepo := [], showGithubModal := False\<rparr>"
  by (simp add: handleGithubModalSubmit_def trim_def)

text \<open>What is stored by a submit depends on the text, the files and the snapshot only.\<close>

lemma handleSubmit_store:
  "fst (handleSubmit toUpperCase db_ok db st) =
     (if trim (internalValue st) \<noteq> [] \<or> attachedFiles st \<noteq> [] \<or> githubRepoData st \<noteq> None
      then fst (POST toUpperCase db_ok db
             (submit_request (internalValue st) (attachedFiles st) (githubRepoData st)))
      else db)"
  by (simp add: handleSubmit_def split: prod.splits)

text \<open>The session that a successful write adds for a request with a language.\<close>

lemma POST_stores:
  assumes "value_or_default (req_language req) (js ''javascript'') = JString language"
  shows "fst (POST toUpperCase True db req) =
     db @ [\<lparr>session_code = req_code req,
            session_language = language,
            session_title = Some (generateSessionTitle toUpperCase (req_code req) language),
            session_githubRepo = req_githubRepo req,
            session_messages =
              (if req_initialMessage req \<noteq> []
               then [\<lparr>msg_content = req_initialMessage req, msg_type = USER\<rparr>] else [])\<rparr>]"
  using assms by (simp add: POST_def Let_def or_default_def)

lemma POST_refuses_object:
  "value_or_default (req_language req) (js ''javascript'') = JObject \<Longrightarrow>
   fst (POST toUpperCase db_ok db req) = db"
  by (simp add: POST_def)

lemma title_hello:
  "generateSessionTitle toUpperCase (js ''hello'') (js ''javascript'') = js ''hello''"
proof -
  have "title_words (js ''hello'') = [js ''hello'']"
    by (simp add: title_defs)
  then show ?thesis
    by (simp add: title_from_words) (simp add: js_def)
qed

lemma title_print:
  "generateSessionTitle toUpperCase (js ''print(1)'') (js ''python'') = js ''print''"
proof -
  have "title_words (js ''print(1)'') = [js ''print'']"
    by (simp add: title_defs)
  then show ?thesis
    by (simp add: title_from_words) (simp add: js_def)
qed

lemma trim_hello: "trim (js ''hello'') = js ''hello''"
  by (simp add: string_defs)

lemma language_notes_py: "detectLanguageFromFile (js ''notes.py'') = JString (js ''python'')"
  by (simp add: language_defs)

lemma stale_reference_no_match: "match_url (trim (js ''octo/demo'')) = None"
  by (simp add: match_defs)

text \<open>
  C6, as the specification states it, has every failed resolution end without a
  repository, the submit then taking the path of the local files and the text. The
  dialog writes the snapshot only when the resolution succeeds and clears nothing
  otherwise: with the snapshot of \<open>octo/demo\<close> attached, a reference that does not match
  leaves that snapshot in the state, and the submit stores a session with the code of
  its first file, where the same state without the snapshot stores nothing.
\<close>

theorem stale_snapshot_survives_failed_resolution:
  "match_url (trim (githubRepo stale_state)) = None \<and>
   fetchGitHubRepo example_env (trim (githubRepo stale_state)) = None \<and>
   githubRepoData (handleGithubModalSubmit example_env stale_state) = Some example_snapshot \<and>
   map session_code
     (fst (handleSubmit ascii_toUpperCase True []
        (handleGithubModalSubmit example_env stale_state))) = [js ''// raw/a.js''] \<and>
   fst (handleSubmit ascii_toUpperCase True [] (stale_state\<lparr>githubRepoData := None\<rparr>)) = []"
proof -
  have reference: "githubRepo stale_state = js ''octo/demo''"
    by (simp add: stale_state_def)
  have no_match: "match_url (trim (githubRepo stale_state)) = None"
    unfolding reference by (rule stale_reference_no_match)
  then have none: "fetchGitHubRepo example_env (trim (githubRepo stale_state)) = None"
    by (simp add: fetchGitHubRepo_def fetchGitHubRepo_invalid)
  then have after: "handleGithubModalSubmit example_env stale_state =
      stale_state\<lparr>showGithubModal := False\<rparr>"
    by (rule handleGithubModalSubmit_failed)
  have kept: "githubRepoData (handleGithubModalSubmit example_env stale_state) =
      Some example_snapshot"
    by (simp add: after) (simp add: stale_state_def)
  have request: "submit_request [] [] (Some example_snapshot) =
      \<lparr>req_code = js ''// raw/a.js'', req_language = Some (JString (js ''javascript'')),
       req_initialMessage = js ''Opened GitHub repository: '' @ js ''octo/demo'',
       req_githubRepo =
         Some \<lparr>payload_name = js ''demo'', payload_fullName = js ''octo/demo'',
               payload_files = map stringify_file (files example_snapshot)\<rparr>\<rparr>"
    by (simp add: submit_request_def submit_content_def submit_initialMessage_def
        example_snapshot_def trim_def value_or_default_def stringify_language_def js_eq_Nil)
  have language: "value_or_default (Some (JString (js ''javascript''))) (js ''javascript'') =
      JString (js ''javascript'')"
    by (simp add: value_or_default_def)
  have "fst (handleSubmit ascii_toUpperCase True []
      (handleGithubModalSubmit example_env stale_state)) =
      fst (POST ascii_toUpperCase True [] (submit_request [] [] (Some example_snapshot)))"
    by (simp add: after handleSubmit_store) (simp add: stale_state_def)
  then have stored: "map session_code
      (fst (handleSubmit ascii_toUpperCase True []
         (handleGithubModalSubmit example_env stale_state))) = [js ''// raw/a.js'']"
    by (simp add: request POST_stores[where language = "js ''javascript''"] language)
  have no_session:
    "fst (handleSubmit ascii_toUpperCase True [] (stale_state\<lparr>githubRepoData := None\<rparr>)) = []"
    by (simp add: handleSubmit_store) (simp add: stale_state_def trim_def)
  from no_match none kept stored no_session show ?thesis
    by (intro conjI)
qed

text \<open>
  C6, amended. When the reference does not match the pattern, or the request for the
  repository fails, the resolution produces no snapshot (the error is \<open>InvalidGitHubURL\<close>,
  respectively \<open>RepositoryNotFound\<close>, and the result \<^verbatim>\<open>null\<close>); the dialog leaves the state as
  it leaves it when no reference is typed, up to the text of the reference, which a
  submit does not read; so a submit stores what it stores when no reference was
  supplied. When no snapshot was attached before, the state has no repository, and the
  submit stores the request built from the text and the local files alone.
\<close>

theorem failed_resolution_no_repository:
  assumes "match_url (trim (githubRepo st)) = None \<or>
           (\<exists>owner repo. match_url (trim (githubRepo st)) = Some (owner, repo) \<and>
              get_repo env owner (strip_git repo) = None)"
  shows "fetchGitHubRepo env (trim (githubRepo st)) = None \<and>
         (match_url (trim (githubRepo st)) = None \<longrightarrow>
            fetchGitHubRepo_try env (trim (githubRepo st)) = Inl InvalidGitHubURL) \<and>
         (match_url (trim (githubRepo st)) \<noteq> None \<longrightarrow>
            fetchGitHubRepo_try env (trim (githubRepo st)) = Inl RepositoryNotFound) \<and>
         githubRepoData (handleGithubModalSubmit env st) = githubRepoData st \<and>
         handleGithubModalSubmit env st =
           (handleGithubModalSubmit env (st\<lparr>githubRepo := []\<rparr>))\<lparr>githubRepo := githubRepo st\<rparr> \<and>
         fst (handleSubmit toUpperCase db_ok db (handleGithubModalSubmit env st)) =
           fst (handleSubmit toUpperCase db_ok db
                  (handleGithubModalSubmit env (st\<lparr>githubRepo := []\<rparr>))) \<and>
         (githubRepoData st = None \<longrightarrow>
            githubRepoData (handleGithubModalSubmit env st) = None \<and>
            fst (handleSubmit toUpperCase db_ok db (handleGithubModalSubmit env st)) =
              (if trim (internalValue st) \<noteq> [] \<or> attachedFiles st \<noteq> []
               then fst (POST toUpperCase db_ok db
                      (submit_request (internalValue st) (attachedFiles st) None))
               else db))"
proof -
  from assms have try_fails:
    "(match_url (trim (githubRepo st)) = None \<longrightarrow>
        fetchGitHubRepo_try env (trim (githubRepo st)) = Inl InvalidGitHubURL) \<and>
     (match_url (trim (githubRepo st)) \<noteq> None \<longrightarrow>
        fetchGitHubRepo_try env (trim (githubRepo st)) = Inl RepositoryNotFound)"
    by (auto simp: fetchGitHubRepo_invalid fetchGitHubRepo_not_found)
  then have none: "fetchGitHubRepo env (trim (githubRepo st)) = None"
    by (cases "match_url (trim (githubRepo st)) = None") (simp_all add: fetchGitHubRepo_def)
  have after: "handleGithubModalSubmit env st = st\<lparr>showGithubModal := False\<rparr>"
    using none by (rule handleGithubModalSubmit_failed)
  have same_state: "handleGithubModalSubmit env st =
      (handleGithubModalSubmit env (st\<lparr>githubRepo := []\<rparr>))\<lparr>githubRepo := githubRepo st\<rparr>"
    by (simp add: after handleGithubModalSubmit_no_reference)
  have same_store: "fst (handleSubmit toUpperCase db_ok db (handleGithubModalSubmit env st)) =
      fst (handleSubmit toUpperCase db_ok db
             (handleGithubModalSubmit env (st\<lparr>githubRepo := []\<rparr>)))"
    by (simp add: after handleGithubModalSubmit_no_reference handleSubmit_store)
  have local_path: "githubRepoData st = None \<longrightarrow>
      githubRepoData (handleGithubModalSubmit env st) = None \<and>
      fst (handleSubmit toUpperCase db_ok db (handleGithubModalSubmit env st)) =
        (if trim (internalValue st) \<noteq> [] \<or> attachedFiles st \<noteq> []
         then fst (POST toUpperCase db_ok db
                (submit_request (internalValue st) (attachedFiles st) None))
         else db)"
    by (simp add: after handleSubmit_store)
  have unchanged: "githubRepoData (handleGithubModalSubmit env st) = githubRepoData st"
    by (simp add: after)
  from none try_fails unchanged same_state same_store local_path show ?thesis
    by blast
qed

lemma missing_url_match:
  "match_url (trim (js ''  https://github.com/octo/missing '')) =
     Some (js ''octo'', js ''missing'')"
  by (simp add: match_defs)

theorem failed_resolution_no_repository_witness:
  "match_url (trim (js ''  https://github.com/octo/missing '')) =
     Some (js ''octo'', js ''missing'') \<and>
   get_repo example_env (js ''octo'') (strip_git (js ''missing'')) = None \<and>
   fetchGitHubRepo example_env (trim (js ''  https://github.com/octo/missing '')) = None \<and>
   fetchGitHubRepo_try example_env (trim (js ''  https://github.com/octo/missing '')) =
     Inl RepositoryNotFound \<and>
   match_url (trim (js ''octo/demo'')) = None \<and>
   fetchGitHubRepo_try example_env (trim (js ''octo/demo'')) = Inl InvalidGitHubURL \<and>
   fst (handleSubmit ascii_toUpperCase True []
     (handleGithubModalSubmit example_env
        \<lparr>internalValue = js ''hello'', attachedFiles = [],
         githubRepo = js ''  https://github.com/octo/missing '', githubRepoData = None,
         showGithubModal = True\<rparr>)) =
     [\<lparr>session_code = js ''hello'', session_language = js ''javascript'',
       session_title = Some (js ''hello''), session_githubRepo = None,
       session_messages = [\<lparr>msg_content = js ''hello'', msg_type = USER\<rparr>]\<rparr>]"
proof -
  let ?st = "\<lparr>internalValue = js ''hello'', attachedFiles = [],
     githubRepo = js ''  https://github.com/octo/missing '', githubRepoData = None,
     showGithubModal = True\<rparr>"
  have missing: "get_repo example_env (js ''octo'') (strip_git (js ''missing'')) = None"
    by (simp add: example_env_def match_defs)
  have hyp: "match_url (trim (githubRepo ?st)) = None \<or>
     (\<exists>owner repo. match_url (trim (githubRepo ?st)) = Some (owner, repo) \<and>
        get_repo example_env owner (strip_git repo) = None)"
    using missing_url_match missing by simp
  have request: "submit_request (js ''hello'') [] None =
      \<lparr>req_code = js ''hello'', req_language = Some (JString (js ''javascript'')),
       req_initialMessage = js ''hello'', req_githubRepo = None\<rparr>"
    by (simp add: submit_request_def submit_content_def submit_initialMessage_def
        stringify_language_def js_eq_Nil)
  have language: "value_or_default (Some (JString (js ''javascript''))) (js ''javascript'') =
      JString (js ''javascript'')"
    by (simp add: value_or_default_def)
  have stored: "fst (POST ascii_toUpperCase True [] (submit_request (js ''hello'') [] None)) =
     [\<lparr>session_code = js ''hello'', session_language = js ''javascript'',
       session_title = Some (js ''hello''), session_githubRepo = None,
       session_messages = [\<lparr>msg_content = js ''hello'', msg_type = USER\<rparr>]\<rparr>]"
    by (simp add: request POST_stores[where language = "js ''javascript''"] language
        title_hello js_eq_Nil)
  note r = failed_resolution_no_repository[OF hyp, of ascii_toUpperCase True "[]"]
  have matched: "match_url (trim (githubRepo ?st)) \<noteq> None"
    using missing_url_match by simp
  have no_snapshot: "githubRepoData ?st = None"
    by simp
  from r have resolved: "fetchGitHubRepo example_env (trim (githubRepo ?st)) = None"
    by (rule conjunct1)
  have not_found:
    "fetchGitHubRepo_try example_env (trim (githubRepo ?st)) = Inl RepositoryNotFound"
    by (rule r[THEN conjunct2, THEN conjunct2, THEN conjunct1, THEN mp, OF matched])
  have "fst (handleSubmit ascii_toUpperCase True []
        (handleGithubModalSubmit example_env ?st)) =
      (if trim (internalValue ?st) \<noteq> [] \<or> attachedFiles ?st \<noteq> []
       then fst (POST ascii_toUpperCase True []
              (submit_request (internalValue ?st) (attachedFiles ?st) None))
       else [])"
    by (rule r[THEN conjunct2, THEN conjunct2, THEN conjunct2, THEN conjunct2,
          THEN conjunct2, THEN conjunct2, THEN mp, OF no_snapshot, THEN conjunct2])
  then have submitted: "fst (handleSubmit ascii_toUpperCase True []
        (handleGithubModalSubmit example_env ?st)) =
     [\<lparr>session_code = js ''hello'', session_language = js ''javascript'',
       session_title = Some (js ''hello''), session_githubRepo = None,
       session_messages = [\<lparr>msg_content = js ''hello'', msg_type = USER\<rparr>]\<rparr>]"
    by (simp add: trim_hello stored js_eq_Nil)
  have reference: "githubRepo ?st = js ''  https://github.com/octo/missing ''"
    by simp
  let ?st' = "\<lparr>internalValue = js ''hello'', attachedFiles = [],
     githubRepo = js ''octo/demo'', githubRepoData = None, showGithubModal = True\<rparr>"
  have unmatched: "match_url (trim (githubRepo ?st')) = None"
    using stale_reference_no_match by simp
  then have hyp': "match_url (trim (githubRepo ?st')) = None \<or>
     (\<exists>owner repo. match_url (trim (githubRepo ?st')) = Some (owner, repo) \<and>
        get_repo example_env owner (strip_git repo) = None)"
    by (rule disjI1)
  have "fetchGitHubRepo_try example_env (trim (githubRepo ?st')) = Inl InvalidGitHubURL"
    by (rule failed_resolution_no_repository[OF hyp', of ascii_toUpperCase True "[]",
          THEN conjunct2, THEN conjunct1, THEN mp, OF unmatched])
  then have invalid:
    "fetchGitHubRepo_try example_env (trim (js ''octo/demo'')) = Inl InvalidGitHubURL"
    by simp
  from missing_url_match missing resolved not_found stale_reference_no_match invalid submitted
  show ?thesis
    unfolding reference by (intro conjI)
qed

lemma local_content_readable:
  "submit_content [] [readable_file] None = (js ''print(1)'', JString (js ''python''))"
  by (simp add: submit_content_def readable_file_def readFileContent_def or_default_def
      trim_def language_notes_py js_eq_Nil)

lemma dirs_resolution:
  "fetchGitHubRepo dirs_env (js ''https://github.com/octo/dirs'') = Some empty_snapshot"
proof -
  have matched: "match_url (js ''https://github.com/octo/dirs'') = Some (js ''octo'', js ''dirs'')"
    by (simp add: match_defs)
  have repo: "get_repo dirs_env (js ''octo'') (strip_git (js ''dirs'')) =
      Some \<lparr>json_name = js ''dirs'', full_name = js ''octo/dirs'', json_description = None,
            stargazers_count = 0, json_language = None\<rparr>"
    by (simp add: dirs_env_def match_defs)
  have listing: "get_contents dirs_env (js ''octo'') (strip_git (js ''dirs'')) =
      Some [\<lparr>item_name = js ''docs'', item_path = js ''docs'', item_type = js ''dir'',
             item_size = 0, download_url = []\<rparr>]"
    by (simp add: dirs_env_def match_defs)
  have "fetchGitHubRepo_try dirs_env (js ''https://github.com/octo/dirs'') = Inr empty_snapshot"
    unfolding fetchGitHubRepo_try_ok[OF matched repo listing]
    by (simp add: resolvedFiles_def selected_items_def empty_snapshot_def or_default_def
        js_eq_Nil) (simp add: js_def)
  then show ?thesis
    by (simp add: fetchGitHubRepo_def)
qed

text \<open>
  C3, as the specification states it, lets the snapshot win over the local files whenever
  a reference was resolved. The branch of the snapshot is guarded by its having a file:
  the repository \<open>octo/dirs\<close> resolves into a snapshot without files, and with it and a
  readable local file, code and language come from the local file.
\<close>

theorem empty_snapshot_yields_to_local_file:
  "fetchGitHubRepo dirs_env (js ''https://github.com/octo/dirs'') = Some empty_snapshot \<and>
   submit_content [] [readable_file] (Some empty_snapshot) =
     (js ''print(1)'', JString (js ''python''))"
proof
  show "fetchGitHubRepo dirs_env (js ''https://github.com/octo/dirs'') = Some empty_snapshot"
    by (rule dirs_resolution)
  have "submit_content [] [readable_file] (Some empty_snapshot) =
      submit_content [] [readable_file] None"
    by (simp add: submit_content_def empty_snapshot_def)
  then show "submit_content [] [readable_file] (Some empty_snapshot) =
      (js ''print(1)'', JString (js ''python''))"
    by (simp only: local_content_readable)
qed

text \<open>
  C3, amended. When the snapshot has at least one file, code and language come from its
  first file (the content, under the header when the trimmed text is not empty; the
  language of the file, \<open>javascript\<close> when it has none), and the local files are not
  read: the result is the one without any local file.
\<close>

theorem snapshot_before_local_files:
  assumes "files repo = firstFile # others"
  shows "submit_content currentValue localFiles (Some repo) =
           (if trim currentValue \<noteq> []
            then js ''// User Input: '' @ currentValue @ newline @ newline @
                 js ''// GitHub Repository: '' @ fullName repo @ newline @
                 js ''// File: '' @ gf_name firstFile @ newline @ gf_content firstFile
            else gf_content firstFile,
            value_or_default (gf_language firstFile) (js ''javascript'')) \<and>
         submit_content currentValue localFiles (Some repo) =
           submit_content currentValue [] (Some repo)"
  using assms by (simp add: submit_content_def)

lemma example_snapshot_files:
  "files example_snapshot =
     \<lparr>gf_name = js ''a.js'', gf_path = js ''a.js'', gf_content = js ''// raw/a.js'',
      gf_size = 12, gf_type = File, gf_language = Some (JString (js ''javascript''))\<rparr> #
     [\<lparr>gf_name = js ''c.py'', gf_path = js ''c.py'', gf_content = js ''// raw/c.py'',
       gf_size = 8, gf_type = File, gf_language = Some (JString (js ''python''))\<rparr>,
      \<lparr>gf_name = js ''d.md'', gf_path = js ''d.md'', gf_content = js ''404: Not Found'',
       gf_size = 20, gf_type = File, gf_language = Some (JString (js ''javascript''))\<rparr>]"
  by (simp add: example_snapshot_def)

theorem snapshot_before_local_files_witness:
  "map gf_name (files example_snapshot) = map js [''a.js'', ''c.py'', ''d.md''] \<and>
   submit_content [] [readable_file] (Some example_snapshot) =
     (js ''// raw/a.js'', JString (js ''javascript'')) \<and>
   submit_content [] [readable_file] (Some example_snapshot) =
     submit_content [] [] (Some example_snapshot)"
proof -
  note r = snapshot_before_local_files[OF example_snapshot_files, of "[]" "[readable_file]"]
  have names: "map gf_name (files example_snapshot) = map js [''a.js'', ''c.py'', ''d.md'']"
    by (simp add: example_snapshot_def)
  from r[THEN conjunct1]
  have content: "submit_content [] [readable_file] (Some example_snapshot) =
     (js ''// raw/a.js'', JString (js ''javascript''))"
    by (simp add: trim_def value_or_default_def js_eq_Nil)
  have independent: "submit_content [] [readable_file] (Some example_snapshot) =
     submit_content [] [] (Some example_snapshot)"
    by (rule r[THEN conjunct2])
  from names content independent show ?thesis
    by (intro conjI)
qed

text \<open>
  C7. Text alone is the code, with the default language. With a readable first local
  file (and no snapshot) and a text that is not blank, the code is the line
  \<open>// User Input: <text>\<close>, an empty line, the line \<open>// File: <name>\<close> and the content of the file;
  for the first file of a snapshot the header has the two lines
  \<open>// GitHub Repository: <full name>\<close> and \<open>// File: <name>\<close>. With a blank text the code is the
  content of the primary file as it is.
\<close>

theorem composed_code:
  "submit_content (js ''hello'') [] None = (js ''hello'', JString (js ''javascript'')) \<and>
   submit_content currentValue [] None = (currentValue, JString (js ''javascript'')) \<and>
   (trim currentValue \<noteq> [] \<and> lf_text file = Some fileContent \<longrightarrow>
      fst (submit_content currentValue (file # others) None) =
        js ''// User Input: '' @ currentValue @ [0x0A] @ [0x0A] @
        js ''// File: '' @ lf_name file @ [0x0A] @ fileContent) \<and>
   (trim currentValue \<noteq> [] \<and> files repo = firstFile # rest \<longrightarrow>
      fst (submit_content currentValue localFiles (Some repo)) =
        js ''// User Input: '' @ currentValue @ [0x0A] @ [0x0A] @
        js ''// GitHub Repository: '' @ fullName repo @ [0x0A] @
        js ''// File: '' @ gf_name firstFile @ [0x0A] @ gf_content firstFile) \<and>
   (trim currentValue = [] \<and> lf_text file = Some fileContent \<longrightarrow>
      fst (submit_content currentValue (file # others) None) = fileContent) \<and>
   (trim currentValue = [] \<and> files repo = firstFile # rest \<longrightarrow>
      fst (submit_content currentValue localFiles (Some repo)) = gf_content firstFile)"
  by (simp add: submit_content_def readFileContent_def or_default_def newline_def)

theorem composed_code_witness:
  "trim (js ''hello'') \<noteq> [] \<and> trim [0xA0, 0x20] = [] \<and>
   lf_text readable_file = Some (js ''print(1)'') \<and>
   fst (submit_content (js ''hello'') [readable_file] None) =
     js ''// User Input: hello'' @ [0x0A] @ [0x0A] @
     js ''// File: notes.py'' @ [0x0A] @ js ''print(1)'' \<and>
   fst (submit_content (js ''hello'') [readable_file] (Some example_snapshot)) =
     js ''// User Input: hello'' @ [0x0A] @ [0x0A] @
     js ''// GitHub Repository: octo/demo'' @ [0x0A] @
     js ''// File: a.js'' @ [0x0A] @ js ''// raw/a.js'' \<and>
   fst (submit_content [0xA0, 0x20] [readable_file] None) = js ''print(1)'' \<and>
   fst (submit_content [0xA0, 0x20] [readable_file] (Some example_snapshot)) = js ''// raw/a.js''"
proof -
  let ?first = "\<lparr>gf_name = js ''a.js'', gf_path = js ''a.js'', gf_content = js ''// raw/a.js'',
     gf_size = 12, gf_type = File, gf_language = Some (JString (js ''javascript''))\<rparr>"
  let ?rest = "[\<lparr>gf_name = js ''c.py'', gf_path = js ''c.py'', gf_content = js ''// raw/c.py'',
       gf_size = 8, gf_type = File, gf_language = Some (JString (js ''python''))\<rparr>,
      \<lparr>gf_name = js ''d.md'', gf_path = js ''d.md'', gf_content = js ''404: Not Found'',
       gf_size = 20, gf_type = File, gf_language = Some (JString (js ''javascript''))\<rparr>]"
  have text_given: "trim (js ''hello'') \<noteq> []"
    by (simp add: trim_hello js_eq_Nil)
  have blank: "trim [0xA0, 0x20] = []"
    by (simp add: trim_def is_ws_def)
  have readable: "lf_text readable_file = Some (js ''print(1)'')"
    by (simp add: readable_file_def)
  note given = composed_code[of "js ''hello''" readable_file "js ''print(1)''" "[]"
      example_snapshot ?first ?rest "[readable_file]"]
  note empty = composed_code[of "[0xA0, 0x20]" readable_file "js ''print(1)''" "[]"
      example_snapshot ?first ?rest "[readable_file]"]
  from given[THEN conjunct2, THEN conjunct2, THEN conjunct1, THEN mp, OF conjI,
      OF text_given readable]
  have local_header: "fst (submit_content (js ''hello'') [readable_file] None) =
     js ''// User Input: hello'' @ [0x0A] @ [0x0A] @
     js ''// File: notes.py'' @ [0x0A] @ js ''print(1)''"
    by (simp add: readable_file_def js_def)
  from given[THEN conjunct2, THEN conjunct2, THEN conjunct2, THEN conjunct1, THEN mp,
      OF conjI, OF text_given example_snapshot_files]
  have repo_header:
    "fst (submit_content (js ''hello'') [readable_file] (Some example_snapshot)) =
     js ''// User Input: hello'' @ [0x0A] @ [0x0A] @
     js ''// GitHub Repository: octo/demo'' @ [0x0A] @
     js ''// File: a.js'' @ [0x0A] @ js ''// raw/a.js''"
    by (simp add: example_snapshot_def js_def)
  from empty[THEN conjunct2, THEN conjunct2, THEN conjunct2, THEN conjunct2, THEN conjunct1,
      THEN mp, OF conjI, OF blank readable]
  have local_verbatim: "fst (submit_content [0xA0, 0x20] [readable_file] None) = js ''print(1)''" .
  from empty[THEN conjunct2, THEN conjunct2, THEN conjunct2, THEN conjunct2, THEN conjunct2,
      THEN mp, OF conjI, OF blank example_snapshot_files]
  have repo_verbatim:
    "fst (submit_content [0xA0, 0x20] [readable_file] (Some example_snapshot)) =
     js ''// raw/a.js''"
    by simp
  from text_given blank readable local_header repo_header local_verbatim repo_verbatim
  show ?thesis
    by (intro conjI)
qed

text \<open>
  C8. When the first local file cannot be read and there is no snapshot, the code is the
  text as typed and the language stays \<open>javascript\<close>: the name of the file is not looked
  up.
\<close>

theorem unreadable_file_falls_back_to_text:
  assumes "readFileContent file = Inl FailedToReadFile"
  shows "submit_content currentValue (file # others) None =
         (currentValue, JString (js ''javascript''))"
  using assms by (simp add: submit_content_def)

theorem unreadable_file_falls_back_to_text_witness:
  "readFileContent unreadable_file = Inl FailedToReadFile \<and>
   detectLanguageFromFile (lf_name unreadable_file) = JString (js ''python'') \<and>
   submit_content (js ''hello'') [unreadable_file] None =
     (js ''hello'', JString (js ''javascript''))"
proof -
  have unreadable: "readFileContent unreadable_file = Inl FailedToReadFile"
    by (simp add: readFileContent_def unreadable_file_def)
  have "detectLanguageFromFile (lf_name unreadable_file) = JString (js ''python'')"
    by (simp add: unreadable_file_def language_notes_py)
  with unreadable unreadable_file_falls_back_to_text[OF unreadable, of "js ''hello''" "[]"]
  show ?thesis
    by (intro conjI)
qed

text \<open>
  C9. With a blank text, no local file and no snapshot, a submit does nothing: the store
  keeps its sessions and messages (and the state of the component is unchanged),
  whether or not a write would have succeeded.
\<close>

theorem submit_without_input_is_noop:
  assumes "trim (internalValue st) = []"
    and "attachedFiles st = []"
    and "githubRepoData st = None"
  shows "handleSubmit toUpperCase db_ok db st = (db, st)"
  using assms by (simp add: handleSubmit_def)

theorem submit_without_input_is_noop_witness:
  "trim [0x20, 0xA0, 0x09] = [] \<and>
   handleSubmit ascii_toUpperCase True []
     \<lparr>internalValue = [0x20, 0xA0, 0x09], attachedFiles = [], githubRepo = [],
      githubRepoData = None, showGithubModal = False\<rparr> =
   ([], \<lparr>internalValue = [0x20, 0xA0, 0x09], attachedFiles = [], githubRepo = [],
         githubRepoData = None, showGithubModal = False\<rparr>)"
proof -
  let ?st = "\<lparr>internalValue = [0x20, 0xA0, 0x09], attachedFiles = [], githubRepo = [],
      githubRepoData = None, showGithubModal = False\<rparr>"
  have blank: "trim [0x20, 0xA0, 0x09] = []"
    by (simp add: trim_def is_ws_def)
  then have text_blank: "trim (internalValue ?st) = []"
    by simp
  have "handleSubmit ascii_toUpperCase True [] ?st = ([], ?st)"
    by (rule submit_without_input_is_noop[OF text_blank]) simp_all
  with blank show ?thesis
    by (intro conjI)
qed

lemma submit_language_nonempty:
  "snd (submit_content currentValue localFiles repoData) \<noteq> JString []"
  by (auto simp: submit_content_def value_or_default_nonempty detectLanguageFromFile_nonempty
      js_eq_Nil split: option.splits list.splits sum.splits)

text \<open>What the route makes of the language that a submit computed.\<close>

lemma served_language:
  "value_or_default (stringify_language v) (js ''javascript'') =
     (case v of
        JString language \<Rightarrow> if language = [] then JString (js ''javascript'') else JString language
      | JFunction \<Rightarrow> JString (js ''javascript'')
      | JObject \<Rightarrow> JObject)"
  by (simp add: value_or_default_def stringify_language_def split: js_value.splits)

text \<open>
  C10, as stated, has the snapshot without files named in the seed message. The seed
  message is the text whenever the text is not empty: with the text \<open>hello\<close> the stored
  session carries the snapshot, and its only message is \<open>hello\<close>.
\<close>

theorem seed_message_is_the_text:
  "fst (handleSubmit ascii_toUpperCase True []
     \<lparr>internalValue = js ''hello'', attachedFiles = [], githubRepo = [],
      githubRepoData = Some empty_snapshot, showGithubModal = False\<rparr>) =
   [\<lparr>session_code = js ''hello'', session_language = js ''javascript'',
     session_title = Some (js ''hello''),
     session_githubRepo =
       Some \<lparr>payload_name = js ''dirs'', payload_fullName = js ''octo/dirs'',
             payload_files = []\<rparr>,
     session_messages = [\<lparr>msg_content = js ''hello'', msg_type = USER\<rparr>]\<rparr>]"
proof -
  have request: "submit_request (js ''hello'') [] (Some empty_snapshot) =
      \<lparr>req_code = js ''hello'', req_language = Some (JString (js ''javascript'')),
       req_initialMessage = js ''hello'',
       req_githubRepo =
         Some \<lparr>payload_name = js ''dirs'', payload_fullName = js ''octo/dirs'',
               payload_files = []\<rparr>\<rparr>"
    by (simp add: submit_request_def submit_content_def submit_initialMessage_def
        empty_snapshot_def stringify_language_def js_eq_Nil)
  have language: "value_or_default (Some (JString (js ''javascript''))) (js ''javascript'') =
      JString (js ''javascript'')"
    by (simp add: value_or_default_def)
  show ?thesis
    by (simp add: handleSubmit_store request
        POST_stores[where language = "js ''javascript''"] language title_hello js_eq_Nil)
qed

text \<open>
  C10, amended. A snapshot without files is passed over when code and language are
  chosen: they are what the local files or the text give without any snapshot. The
  snapshot is still sent in the request and stored with the session, and it is named in
  the seed message when the text is empty; a text that is not empty is the seed message
  itself. What is stored is what the route stores for that request: the session with
  the language when the language is a string, with \<open>javascript\<close> when it is the function
  that JSON leaves out, and nothing when it is an object.
\<close>

theorem empty_snapshot_ignored_for_content:
  assumes "files repo = []"
  shows "submit_content currentValue localFiles (Some repo) =
           submit_content currentValue localFiles None \<and>
         req_githubRepo (submit_request currentValue localFiles (Some repo)) =
           Some \<lparr>payload_name = repo_name repo, payload_fullName = fullName repo,
                 payload_files = []\<rparr> \<and>
         req_initialMessage (submit_request currentValue localFiles (Some repo)) =
           (if currentValue \<noteq> [] then currentValue
            else js ''Opened GitHub repository: '' @ fullName repo) \<and>
         (internalValue st = currentValue \<and> attachedFiles st = localFiles \<and>
          githubRepoData st = Some repo \<longrightarrow>
            fst (handleSubmit toUpperCase True db st) =
              fst (POST toUpperCase True db
                \<lparr>req_code = fst (submit_content currentValue localFiles None),
                 req_language =
                   stringify_language (snd (submit_content currentValue localFiles None)),
                 req_initialMessage =
                   (if currentValue \<noteq> [] then currentValue
                    else js ''Opened GitHub repository: '' @ fullName repo),
                 req_githubRepo =
                   Some \<lparr>payload_name = repo_name repo, payload_fullName = fullName repo,
                         payload_files = []\<rparr>\<rparr>) \<and>
            (snd (submit_content currentValue localFiles None) = JObject \<longrightarrow>
               fst (handleSubmit toUpperCase True db st) = db) \<and>
            (snd (submit_content currentValue localFiles None) \<noteq> JObject \<longrightarrow>
               fst (handleSubmit toUpperCase True db st) =
                 db @ [\<lparr>session_code = fst (submit_content currentValue localFiles None),
                        session_language =
                          (case snd (submit_content currentValue localFiles None) of
                             JString language \<Rightarrow> language
                           | JFunction \<Rightarrow> js ''javascript''
                           | JObject \<Rightarrow> js ''javascript''),
                        session_title =
                          Some (generateSessionTitle toUpperCase
                            (fst (submit_content currentValue localFiles None))
                            (case snd (submit_content currentValue localFiles None) of
                               JString language \<Rightarrow> language
                             | JFunction \<Rightarrow> js ''javascript''
                             | JObject \<Rightarrow> js ''javascript'')),
                        session_githubRepo =
                          Some \<lparr>payload_name = repo_name repo,
                                payload_fullName = fullName repo, payload_files = []\<rparr>,
                        session_messages =
                          [\<lparr>msg_content =
                              (if currentValue \<noteq> [] then currentValue
                               else js ''Opened GitHub repository: '' @ fullName repo),
                            msg_type = USER\<rparr>]\<rparr>]))"
proof -
  let ?code = "fst (submit_content currentValue localFiles None)"
  let ?lang = "snd (submit_content currentValue localFiles None)"
  let ?seed = "if currentValue \<noteq> [] then currentValue
     else js ''Opened GitHub repository: '' @ fullName repo"
  let ?payload = "Some \<lparr>payload_name = repo_name repo, payload_fullName = fullName repo,
     payload_files = []\<rparr>"
  let ?req = "\<lparr>req_code = ?code, req_language = stringify_language ?lang,
     req_initialMessage = ?seed, req_githubRepo = ?payload\<rparr>"
  let ?served = "case ?lang of JString language \<Rightarrow> language
     | JFunction \<Rightarrow> js ''javascript'' | JObject \<Rightarrow> js ''javascript''"
  have content: "submit_content currentValue localFiles (Some repo) =
      submit_content currentValue localFiles None"
    using assms by (simp add: submit_content_def)
  have payload: "req_githubRepo (submit_request currentValue localFiles (Some repo)) = ?payload"
    using assms by (simp add: submit_request_def)
  have seed: "req_initialMessage (submit_request currentValue localFiles (Some repo)) = ?seed"
    by (simp add: submit_request_def submit_initialMessage_def)
  have seed_nonempty: "?seed \<noteq> []"
    by (simp add: js_eq_Nil)
  have request: "submit_request currentValue localFiles (Some repo) = ?req"
    using assms by (simp add: submit_request_def content submit_initialMessage_def)
  have stored: "internalValue st = currentValue \<and> attachedFiles st = localFiles \<and>
      githubRepoData st = Some repo \<longrightarrow>
      fst (handleSubmit toUpperCase True db st) = fst (POST toUpperCase True db ?req) \<and>
      (?lang = JObject \<longrightarrow> fst (handleSubmit toUpperCase True db st) = db) \<and>
      (?lang \<noteq> JObject \<longrightarrow>
         fst (handleSubmit toUpperCase True db st) =
           db @ [\<lparr>session_code = ?code, session_language = ?served,
                  session_title = Some (generateSessionTitle toUpperCase ?code ?served),
                  session_githubRepo = ?payload,
                  session_messages = [\<lparr>msg_content = ?seed, msg_type = USER\<rparr>]\<rparr>])"
  proof
    assume st: "internalValue st = currentValue \<and> attachedFiles st = localFiles \<and>
      githubRepoData st = Some repo"
    then have sent: "fst (handleSubmit toUpperCase True db st) =
        fst (POST toUpperCase True db ?req)"
      by (simp add: handleSubmit_store request)
    have object: "?lang = JObject \<longrightarrow> fst (handleSubmit toUpperCase True db st) = db"
    proof
      assume "?lang = JObject"
      then have "value_or_default (req_language ?req) (js ''javascript'') = JObject"
        by (simp add: served_language)
      then show "fst (handleSubmit toUpperCase True db st) = db"
        unfolding sent by (rule POST_refuses_object)
    qed
    have other: "?lang \<noteq> JObject \<longrightarrow>
        fst (handleSubmit toUpperCase True db st) =
          db @ [\<lparr>session_code = ?code, session_language = ?served,
                 session_title = Some (generateSessionTitle toUpperCase ?code ?served),
                 session_githubRepo = ?payload,
                 session_messages = [\<lparr>msg_content = ?seed, msg_type = USER\<rparr>]\<rparr>]"
    proof
      assume no_object: "?lang \<noteq> JObject"
      have "?lang \<noteq> JString []"
        by (rule submit_language_nonempty)
      with no_object
      have "value_or_default (req_language ?req) (js ''javascript'') = JString ?served"
        by (cases ?lang) (simp_all add: served_language)
      from POST_stores[OF this, of toUpperCase db] seed_nonempty
      show "fst (handleSubmit toUpperCase True db st) =
          db @ [\<lparr>session_code = ?code, session_language = ?served,
                 session_title = Some (generateSessionTitle toUpperCase ?code ?served),
                 session_githubRepo = ?payload,
                 session_messages = [\<lparr>msg_content = ?seed, msg_type = USER\<rparr>]\<rparr>]"
        unfolding sent by simp
    qed
    from sent object other
    show "fst (handleSubmit toUpperCase True db st) = fst (POST toUpperCase True db ?req) \<and>
      (?lang = JObject \<longrightarrow> fst (handleSubmit toUpperCase True db st) = db) \<and>
      (?lang \<noteq> JObject \<longrightarrow>
         fst (handleSubmit toUpperCase True db st) =
           db @ [\<lparr>session_code = ?code, session_language = ?served,
                  session_title = Some (generateSessionTitle toUpperCase ?code ?served),
                  session_githubRepo = ?payload,
                  session_messages = [\<lparr>msg_content = ?seed, msg_type = USER\<rparr>]\<rparr>])"
      by (intro conjI)
  qed
  from content payload seed stored show ?thesis
    by (intro conjI)
qed

theorem empty_snapshot_ignored_for_content_witness:
  "files empty_snapshot = [] \<and>
   submit_content [] [readable_file] (Some empty_snapshot) =
     submit_content [] [readable_file] None \<and>
   submit_content [] [readable_file] None = (js ''print(1)'', JString (js ''python'')) \<and>
   req_initialMessage (submit_request [] [readable_file] (Some empty_snapshot)) =
     js ''Opened GitHub repository: octo/dirs'' \<and>
   fst (handleSubmit ascii_toUpperCase True []
     \<lparr>internalValue = [], attachedFiles = [readable_file], githubRepo = [],
      githubRepoData = Some empty_snapshot, showGithubModal = False\<rparr>) =
   [\<lparr>session_code = js ''print(1)'', session_language = js ''python'',
     session_title = Some (js ''print''),
     session_githubRepo =
       Some \<lparr>payload_name = js ''dirs'', payload_fullName = js ''octo/dirs'',
             payload_files = []\<rparr>,
     session_messages =
       [\<lparr>msg_content = js ''Opened GitHub repository: octo/dirs'', msg_type = USER\<rparr>]\<rparr>]"
proof -
  let ?st = "\<lparr>internalValue = [], attachedFiles = [readable_file], githubRepo = [],
      githubRepoData = Some empty_snapshot, showGithubModal = False\<rparr>"
  have no_files: "files empty_snapshot = []"
    by (simp add: empty_snapshot_def)
  note r = empty_snapshot_ignored_for_content[OF no_files, of "[]" "[readable_file]" ?st
      ascii_toUpperCase "[]"]
  have content: "submit_content [] [readable_file] (Some empty_snapshot) =
     submit_content [] [readable_file] None"
    by (rule r[THEN conjunct1])
  have "req_initialMessage (submit_request [] [readable_file] (Some empty_snapshot)) =
     (if [] \<noteq> ([]::jstring) then []
      else js ''Opened GitHub repository: '' @ fullName empty_snapshot)"
    by (rule r[THEN conjunct2, THEN conjunct2, THEN conjunct1])
  then have seed: "req_initialMessage (submit_request [] [readable_file] (Some empty_snapshot)) =
     js ''Opened GitHub repository: octo/dirs''"
    by (simp add: empty_snapshot_def js_def)
  have state: "internalValue ?st = [] \<and> attachedFiles ?st = [readable_file] \<and>
     githubRepoData ?st = Some empty_snapshot"
    by simp
  have no_object: "snd (submit_content [] [readable_file] None) \<noteq> JObject"
    by (simp add: local_content_readable)
  from r[THEN conjunct2, THEN conjunct2, THEN conjunct2, THEN mp, OF state,
      THEN conjunct2, THEN conjunct2, THEN mp, OF no_object]
  have stored: "fst (handleSubmit ascii_toUpperCase True [] ?st) =
     [\<lparr>session_code = js ''print(1)'', session_language = js ''python'',
       session_title = Some (js ''print''),
       session_githubRepo =
         Some \<lparr>payload_name = js ''dirs'', payload_fullName = js ''octo/dirs'',
               payload_files = []\<rparr>,
       session_messages =
         [\<lparr>msg_content = js ''Opened GitHub repository: octo/dirs'', msg_type = USER\<rparr>]\<rparr>]"
    by (simp add: local_content_readable title_print empty_snapshot_def) (simp add: js_def)
  from no_files content local_content_readable seed stored show ?thesis
    by (intro conjI)
qed

end
